theory Spec2Isabelle
  imports Complex_Main
begin

section \<open>Python values\<close>

text \<open>
  The orchestrator of \<^verbatim>\<open>src/app/ai/central_brain.py\<close> (class \<^verbatim>\<open>CentralAIBrain\<close>)
  exchanges dynamically typed values with its callers and collaborators:
  \<^verbatim>\<open>Dict[str, Any]\<close> results, strings, numbers and \<^verbatim>\<open>SystemAction\<close> objects.
  A dictionary is an association list in insertion order, as Python keeps it; all
  keys used by the source are strings. A float is written as a rational: \<open>PFloat r\<close>
  is the double nearest to \<open>r\<close>, which is what a float literal and the correctly
  rounded division behind \<^verbatim>\<open>total_seconds()\<close> give. Where the code computes with a
  float that is already rounded, the rounding is applied explicitly.
\<close>

text \<open>
  Modelled from the spec: the class \<^verbatim>\<open>SystemAction\<close> is declared in
  \<^verbatim>\<open>system_controller.py\<close>, which is not among the sources. The brain reads three
  attributes of it: \<^verbatim>\<open>action_id\<close>, \<^verbatim>\<open>recommended_action.value\<close> (a string, the value
  of an enumeration member) and \<^verbatim>\<open>user_feedback\<close>.
\<close>

record system_action =
  action_id :: string
  recommended_action :: string
  user_feedback :: string

datatype pyval =
    PNone
  | PBool bool
  | PInt int
  | PFloat rat
  | PStr string
  | PList "pyval list"
  | PDict "(string \<times> pyval) list"
  | PAction system_action

type_synonym dict = "(string \<times> pyval) list"

text \<open>
  Every handler of the source is \<^verbatim>\<open>except Exception\<close>. It catches the exceptions that
  derive from \<^verbatim>\<open>Exception\<close>, of which the brain reads nothing but \<^verbatim>\<open>str(e)\<close>: such
  an exception is \<open>Exception m\<close> with \<open>m\<close> that text, whatever its class. It does
  not catch the built-in exceptions that derive from \<^verbatim>\<open>BaseException\<close> only:
  \<^verbatim>\<open>asyncio.CancelledError\<close>, \<^verbatim>\<open>KeyboardInterrupt\<close> and \<^verbatim>\<open>SystemExit\<close>, which an awaited
  collaborator can raise as well. (\<^verbatim>\<open>GeneratorExit\<close> is thrown into a generator that is
  closed early; the consumer of the model never does that.)
\<close>

datatype exn =
    Exception string
  | CancelledError string
  | KeyboardInterrupt string
  | SystemExit string

text \<open>\<^verbatim>\<open>isinstance(e, Exception)\<close>: what a handler of the source catches.\<close>

fun is_exception :: "exn \<Rightarrow> bool" where
  "is_exception (Exception _) = True"
| "is_exception _ = False"

fun str_exn :: "exn \<Rightarrow> string" where
  "str_exn (Exception m) = m"
| "str_exn (CancelledError m) = m"
| "str_exn (KeyboardInterrupt m) = m"
| "str_exn (SystemExit m) = m"

definition quoted :: "string \<Rightarrow> string" where
  "quoted s = CHR 0x27 # s @ [CHR 0x27]"

fun type_name :: "pyval \<Rightarrow> string" where
  "type_name PNone = ''NoneType''"
| "type_name (PBool _) = ''bool''"
| "type_name (PInt _) = ''int''"
| "type_name (PFloat _) = ''float''"
| "type_name (PStr _) = ''str''"
| "type_name (PList _) = ''list''"
| "type_name (PDict _) = ''dict''"
| "type_name (PAction _) = ''SystemAction''"

text \<open>The \<^verbatim>\<open>AttributeError\<close> of reading a missing attribute.\<close>

definition no_attribute :: "string \<Rightarrow> string \<Rightarrow> exn" where
  "no_attribute ty attr =
     Exception (quoted ty @ '' object has no attribute '' @ quoted attr)"

text \<open>Truth value of an object, as \<^verbatim>\<open>if x\<close> and \<^verbatim>\<open>not x\<close> test it.\<close>

fun truthy :: "pyval \<Rightarrow> bool" where
  "truthy PNone = False"
| "truthy (PBool b) = b"
| "truthy (PInt i) = (i \<noteq> 0)"
| "truthy (PFloat r) = (r \<noteq> 0)"
| "truthy (PStr s) = (s \<noteq> [])"
| "truthy (PList xs) = (xs \<noteq> [])"
| "truthy (PDict d) = (d \<noteq> [])"
| "truthy (PAction _) = True"

text \<open>\<^verbatim>\<open>d.get(k, default)\<close>: only a dictionary has the method.\<close>

fun py_get :: "pyval \<Rightarrow> string \<Rightarrow> pyval \<Rightarrow> exn + pyval" where
  "py_get (PDict d) k dflt = Inr (case map_of d k of None \<Rightarrow> dflt | Some v \<Rightarrow> v)"
| "py_get v k dflt = Inl (no_attribute (type_name v) ''get'')"

text \<open>
  \<^verbatim>\<open>translation_result["action"]\<close>, the one subscript of the source. On a dictionary
  without the key it raises \<^verbatim>\<open>KeyError('action')\<close>, whose text is the key in single
  quotes. The second equation is never reached: the value subscripted has answered
  \<^verbatim>\<open>.get\<close> just before, so it is a dictionary; Python's wording of that \<^verbatim>\<open>TypeError\<close>
  depends on the type and is not reproduced for strings and lists.
\<close>

fun py_item_action :: "pyval \<Rightarrow> exn + pyval" where
  "py_item_action (PDict d) =
     (case map_of d ''action'' of
        None \<Rightarrow> Inl (Exception (quoted ''action''))
      | Some v \<Rightarrow> Inr v)"
| "py_item_action v = Inl (Exception (quoted (type_name v) @ '' object is not subscriptable''))"

text \<open>\<^verbatim>\<open>d[k] = v\<close>: an existing key keeps its place, a new key goes last.\<close>

fun dict_set :: "dict \<Rightarrow> string \<Rightarrow> pyval \<Rightarrow> dict" where
  "dict_set [] k v = [(k, v)]"
| "dict_set (p # ps) k v = (if fst p = k then (k, v) # ps else p # dict_set ps k v)"

text \<open>
  Reading an attribute of the translated action: anything that is not a
  \<^verbatim>\<open>SystemAction\<close> has no \<^verbatim>\<open>recommended_action\<close>.
\<close>

fun as_action :: "pyval \<Rightarrow> exn + system_action" where
  "as_action (PAction a) = Inr a"
| "as_action v = Inl (no_attribute (type_name v) ''recommended_action'')"

section \<open>Collaborators\<close>

text \<open>
  The collaborators are imported from modules that are not among the sources, so
  each is a record of the behaviours the brain calls: a call returns a value or
  raises. A collaborator that receives commands also carries the log
  of the calls made to it (\<open>cm_updates\<close>, \<open>sc_executed\<close>; a call that raises is
  logged too), which is how the properties below observe Context Store writes and
  Action Executor invocations. The Context Store answers from the records it has
  received. The specialized agents are constructed with a reference to the brain;
  the model takes it that no collaborator assigns the brain's attributes. An
  operation is first modelled as running to its end; the interleaving of
  conversational turns at their \<^verbatim>\<open>await\<close>s is modelled further down. Timestamps are
  microseconds.
\<close>

type_synonym datetime = int

record ollama_client =
  oc_start :: "exn + unit"
  oc_close :: "exn + unit"
  oc_generate_response :: "string \<Rightarrow> pyval \<Rightarrow> string \<Rightarrow> exn + string"
  oc_stream_response :: "string \<Rightarrow> pyval \<Rightarrow> string \<Rightarrow> string list \<times> exn option"
  oc_get_health_status :: "exn + pyval"

record context_manager =
  cm_build_context :: "pyval list \<Rightarrow> string \<Rightarrow> string \<Rightarrow> exn + pyval"
  cm_update_context :: "pyval \<Rightarrow> exn + unit"
  cm_get_context_summary :: "pyval list \<Rightarrow> exn + pyval"
  cm_updates :: "pyval list"

record user_interface_agent =
  ui_process_chat_message :: "string \<Rightarrow> pyval \<Rightarrow> exn + pyval"

record agent_orchestrator =
  ao_coordinate_task :: "string \<Rightarrow> pyval \<Rightarrow> exn + pyval"

record embryo_trainer =
  et_generate_training_labels :: "pyval list \<Rightarrow> exn + pyval"
  et_validate_embryo_training :: "dict \<Rightarrow> exn + pyval"
  et_assess_birth_readiness :: "dict \<Rightarrow> exn + pyval"

record system_controller =
  sc_translate_user_command :: "string \<Rightarrow> pyval \<Rightarrow> exn + system_action"
  sc_execute_system_action :: "system_action \<Rightarrow> exn + pyval"
  sc_executed :: "system_action list"

text \<open>
  What the module imports and the built-ins it calls: the collaborators'
  constructors, the clock (\<open>datetime_now E n\<close> is what the \<open>n\<close>-th call of
  \<^verbatim>\<open>datetime.now()\<close> returns), \<^verbatim>\<open>isoformat\<close>, the formatting of values inside f-strings
  (\<open>format_1f\<close> formats the double nearest to its argument), and \<open>nearest_double\<close>,
  the value of the double nearest to a rational.
\<close>

record env =
  new_OllamaClient :: "pyval \<Rightarrow> exn + ollama_client"
  new_ContextManager :: "pyval \<Rightarrow> exn + context_manager"
  new_UserInterfaceAgent :: "exn + user_interface_agent"
  new_AgentOrchestrator :: "exn + agent_orchestrator"
  new_EmbryoTrainer :: "exn + embryo_trainer"
  new_SystemController :: "exn + system_controller"
  datetime_now :: "nat \<Rightarrow> datetime"
  isoformat :: "datetime \<Rightarrow> string"
  format_value :: "pyval \<Rightarrow> string"
  format_1f :: "rat \<Rightarrow> string"
  nearest_double :: "rat \<Rightarrow> rat"

section \<open>Orchestrator state\<close>

text \<open>
  The attributes of \<^verbatim>\<open>CentralAIBrain\<close> set by \<^verbatim>\<open>__init__\<close>, and \<open>clock_reads\<close>, the
  number of times the clock has been read so far.
\<close>

record brain =
  config :: dict
  ai_config :: pyval
  context_config :: pyval
  ollama_client :: "ollama_client option"
  context_manager :: "context_manager option"
  user_interface :: "user_interface_agent option"
  agent_orchestrator :: "agent_orchestrator option"
  embryo_trainer :: "embryo_trainer option"
  system_controller :: "system_controller option"
  pattern_validator :: "unit option"
  is_running :: bool
  startup_time :: "datetime option"
  interaction_count :: int
  clock_reads :: nat

definition init :: "dict \<Rightarrow> brain" where
  "init cfg =
     \<lparr> config = cfg,
       ai_config = (case map_of cfg ''ai_brain'' of None \<Rightarrow> PDict [] | Some v \<Rightarrow> v),
       context_config =
         (case map_of cfg ''context_management'' of None \<Rightarrow> PDict [] | Some v \<Rightarrow> v),
       ollama_client = None,
       context_manager = None,
       user_interface = None,
       agent_orchestrator = None,
       embryo_trainer = None,
       system_controller = None,
       pattern_validator = None,
       is_running = False,
       startup_time = None,
       interaction_count = 0,
       clock_reads = 0 \<rparr>"

section \<open>Control flow: state, exceptions, handlers\<close>

text \<open>
  A method of the brain takes the state and returns the updated state together
  with either the value it returns (\<open>Inr\<close>) or the exception it raises (\<open>Inl\<close>).
\<close>

type_synonym 'a prog = "brain \<Rightarrow> (exn + 'a) \<times> brain"

definition ret :: "'a \<Rightarrow> 'a prog" where
  "ret x = (\<lambda>s. (Inr x, s))"

definition raise :: "exn \<Rightarrow> 'a prog" where
  "raise e = (\<lambda>s. (Inl e, s))"

definition lift :: "exn + 'a \<Rightarrow> 'a prog" where
  "lift r = (\<lambda>s. (r, s))"

definition bnd :: "'a prog \<Rightarrow> ('a \<Rightarrow> 'b prog) \<Rightarrow> 'b prog" where
  "bnd m f = (\<lambda>s. case m s of (Inl e, s') \<Rightarrow> (Inl e, s') | (Inr x, s') \<Rightarrow> f x s')"

definition seq :: "'a prog \<Rightarrow> 'b prog \<Rightarrow> 'b prog" where
  "seq m k = bnd m (\<lambda>_. k)"

definition modify :: "(brain \<Rightarrow> brain) \<Rightarrow> unit prog" where
  "modify f = (\<lambda>s. (Inr (), f s))"

text \<open>
  \<^verbatim>\<open>try: m  except Exception as e: h e\<close>. An exception that does not derive from
  \<^verbatim>\<open>Exception\<close> passes through the handler.
\<close>

definition try_except :: "'a prog \<Rightarrow> (exn \<Rightarrow> 'a prog) \<Rightarrow> 'a prog" where
  "try_except m h = (\<lambda>s.
     case m s of
       (Inl e, s') \<Rightarrow> if is_exception e then h e s' else (Inl e, s')
     | (Inr x, s') \<Rightarrow> (Inr x, s'))"

text \<open>\<^verbatim>\<open>datetime.now()\<close>\<close>

definition now :: "env \<Rightarrow> datetime prog" where
  "now E = (\<lambda>s. (Inr (datetime_now E (clock_reads s)), s\<lparr>clock_reads := Suc (clock_reads s)\<rparr>))"

definition total_seconds :: "datetime \<Rightarrow> rat" where
  "total_seconds d = of_int d / 1000000"

text \<open>
  Calls through an attribute that may still be \<^verbatim>\<open>None\<close>: Python raises
  \<^verbatim>\<open>AttributeError\<close> there.
\<close>

definition build_context :: "string \<Rightarrow> string \<Rightarrow> pyval prog" where
  "build_context interaction_type user_message = (\<lambda>s.
     case context_manager s of
       None \<Rightarrow> (Inl (no_attribute ''NoneType'' ''build_context''), s)
     | Some cm \<Rightarrow> (cm_build_context cm (cm_updates cm) interaction_type user_message, s))"

definition update_context :: "pyval \<Rightarrow> unit prog" where
  "update_context r = (\<lambda>s.
     case context_manager s of
       None \<Rightarrow> (Inl (no_attribute ''NoneType'' ''update_context''), s)
     | Some cm \<Rightarrow>
         (cm_update_context cm r,
          s\<lparr>context_manager := Some (cm\<lparr>cm_updates := cm_updates cm @ [r]\<rparr>)\<rparr>))"

definition generate_response :: "string \<Rightarrow> pyval \<Rightarrow> string \<Rightarrow> string prog" where
  "generate_response prompt ctx system_prompt = (\<lambda>s.
     case ollama_client s of
       None \<Rightarrow> (Inl (no_attribute ''NoneType'' ''generate_response''), s)
     | Some oc \<Rightarrow> (oc_generate_response oc prompt ctx system_prompt, s))"

definition stream_response :: "string \<Rightarrow> pyval \<Rightarrow> string \<Rightarrow> (string list \<times> exn option) prog"
  where
  "stream_response prompt ctx system_prompt = (\<lambda>s.
     case ollama_client s of
       None \<Rightarrow> (Inl (no_attribute ''NoneType'' ''stream_response''), s)
     | Some oc \<Rightarrow> (Inr (oc_stream_response oc prompt ctx system_prompt), s))"

definition sc_translate :: "string \<Rightarrow> pyval \<Rightarrow> system_action prog" where
  "sc_translate user_command user_context = (\<lambda>s.
     case system_controller s of
       None \<Rightarrow> (Inl (no_attribute ''NoneType'' ''translate_user_command''), s)
     | Some sc \<Rightarrow> (sc_translate_user_command sc user_command user_context, s))"

definition sc_execute :: "system_action \<Rightarrow> pyval prog" where
  "sc_execute a = (\<lambda>s.
     case system_controller s of
       None \<Rightarrow> (Inl (no_attribute ''NoneType'' ''execute_system_action''), s)
     | Some sc \<Rightarrow>
         (sc_execute_system_action sc a,
          s\<lparr>system_controller := Some (sc\<lparr>sc_executed := sc_executed sc @ [a]\<rparr>)\<rparr>))"

text \<open>The calls the Action Executor and the Context Store have received.\<close>

definition executor_calls :: "brain \<Rightarrow> system_action list" where
  "executor_calls s = (case system_controller s of None \<Rightarrow> [] | Some sc \<Rightarrow> sc_executed sc)"

definition context_writes :: "brain \<Rightarrow> pyval list" where
  "context_writes s = (case context_manager s of None \<Rightarrow> [] | Some cm \<Rightarrow> cm_updates cm)"

section \<open>Command pipeline\<close>

definition translate_user_command :: "string \<Rightarrow> pyval \<Rightarrow> pyval prog" where
  "translate_user_command user_command user_context = (\<lambda>s.
     if \<not> is_running s \<or> system_controller s = None then
       ret (PDict [(''success'', PBool False),
                   (''error'', PStr ''SystemController not available''),
                   (''action'', PNone)]) s
     else
       try_except
         (bnd (sc_translate user_command user_context) (\<lambda>system_action.
            ret (PDict [(''success'', PBool True),
                        (''action'', PAction system_action),
                        (''action_id'', PStr (action_id system_action))])))
         (\<lambda>e. ret (PDict [(''success'', PBool False),
                          (''error'', PStr (str_exn e)),
                          (''action'', PNone)])) s)"

definition execute_system_action :: "system_action \<Rightarrow> pyval prog" where
  "execute_system_action a = (\<lambda>s.
     if \<not> is_running s \<or> system_controller s = None then
       ret (PDict [(''success'', PBool False),
                   (''error'', PStr ''SystemController not available'')]) s
     else
       try_except
         (sc_execute a)
         (\<lambda>e. ret (PDict [(''success'', PBool False),
                          (''error'', PStr (str_exn e))])) s)"

definition process_user_command :: "string \<Rightarrow> pyval \<Rightarrow> pyval prog" where
  "process_user_command user_command user_context =
     try_except
       (bnd (translate_user_command user_command user_context) (\<lambda>translation_result.
        bnd (lift (py_get translation_result ''success'' PNone)) (\<lambda>ok.
          if \<not> truthy ok then ret translation_result
          else
            bnd (lift (py_item_action translation_result)) (\<lambda>action_obj.
            bnd (lift (as_action action_obj)) (\<lambda>a.
              if recommended_action a = ''request_confirmation''
                 \<or> recommended_action a = ''request_clarification'' then
                ret (PDict [(''success'', PBool True),
                            (''requires_user_input'', PBool True),
                            (''message'', PStr (user_feedback a)),
                            (''action_id'', PStr (action_id a)),
                            (''recommended_action'', PStr (recommended_action a))])
              else if recommended_action a = ''execute'' then
                bnd (execute_system_action a) (\<lambda>execution_result.
                bnd (lift (py_get execution_result ''success'' (PBool False))) (\<lambda>succ.
                bnd (lift (py_get execution_result ''message'' (PStr ''Action completed'')))
                  (\<lambda>msg.
                  ret (PDict [(''success'', succ),
                              (''message'', msg),
                              (''action_id'', PStr (action_id a)),
                              (''results'', execution_result)]))))
              else
                ret (PDict [(''success'', PBool False),
                            (''message'', PStr (user_feedback a)),
                            (''action_id'', PStr (action_id a)),
                            (''recommended_action'', PStr (recommended_action a))]))))))
       (\<lambda>e. ret (PDict [(''success'', PBool False),
                        (''error'', PStr (str_exn e)),
                        (''message'', PStr ''I encountered an error processing your command.'')]))"

section \<open>Lifecycle and health\<close>

definition get_health_status :: "env \<Rightarrow> pyval prog" where
  "get_health_status E = (\<lambda>s.
     bnd (case ollama_client s of
            None \<Rightarrow>
              ret [(''central_brain_running'', PBool (is_running s)),
                   (''startup_time'',
                      case startup_time s of None \<Rightarrow> PNone | Some t \<Rightarrow> PStr (isoformat E t)),
                   (''interaction_count'', PInt (interaction_count s)),
                   (''ollama_healthy'', PBool False),
                   (''context_manager_status'', PNone)]
          | Some oc \<Rightarrow>
              bnd (lift (oc_get_health_status oc)) (\<lambda>ollama_status.
              bnd (lift (py_get ollama_status ''is_healthy'' (PBool False))) (\<lambda>healthy.
              bnd (lift (py_get ollama_status ''model_name'' (PStr ''unknown''))) (\<lambda>model.
                ret (dict_set
                       (dict_set
                          [(''central_brain_running'', PBool (is_running s)),
                           (''startup_time'',
                              case startup_time s of
                                None \<Rightarrow> PNone
                              | Some t \<Rightarrow> PStr (isoformat E t)),
                           (''interaction_count'', PInt (interaction_count s)),
                           (''ollama_healthy'', PBool False),
                           (''context_manager_status'', PNone)]
                          ''ollama_healthy'' healthy)
                       ''ollama_model'' model)))))
         (\<lambda>status.
            case context_manager s of
              None \<Rightarrow> ret (PDict status)
            | Some cm \<Rightarrow>
                bnd (lift (cm_get_context_summary cm (cm_updates cm))) (\<lambda>summary.
                  ret (PDict (dict_set status ''context_manager_status'' summary)))) s)"

definition initialize_specialized_agents :: "env \<Rightarrow> unit prog" where
  "initialize_specialized_agents E =
     try_except
       (bnd (lift (new_UserInterfaceAgent E)) (\<lambda>ui.
        seq (modify (\<lambda>s. s\<lparr>user_interface := Some ui\<rparr>))
       (bnd (lift (new_AgentOrchestrator E)) (\<lambda>ao.
        seq (modify (\<lambda>s. s\<lparr>agent_orchestrator := Some ao\<rparr>))
       (bnd (lift (new_EmbryoTrainer E)) (\<lambda>et.
        seq (modify (\<lambda>s. s\<lparr>embryo_trainer := Some et\<rparr>))
       (bnd (lift (new_SystemController E)) (\<lambda>sc.
        modify (\<lambda>s. s\<lparr>system_controller := Some sc\<rparr>)))))))))
       (\<lambda>e. ret ())"

definition start :: "env \<Rightarrow> unit prog" where
  "start E =
     try_except
       (bnd (\<lambda>s. (new_OllamaClient E (ai_config s), s)) (\<lambda>oc.
        seq (modify (\<lambda>s. s\<lparr>ollama_client := Some oc\<rparr>))
       (seq (lift (oc_start oc))
       (bnd (\<lambda>s. (new_ContextManager E (context_config s), s)) (\<lambda>cm.
        seq (modify (\<lambda>s. s\<lparr>context_manager := Some cm\<rparr>))
       (bnd (get_health_status E) (\<lambda>health_status.
        bnd (lift (py_get health_status ''ollama_healthy'' (PBool False))) (\<lambda>healthy.
          if \<not> truthy healthy then raise (Exception ''Ollama client is not healthy'')
          else
            seq (modify (\<lambda>s. s\<lparr>is_running := True\<rparr>))
           (bnd (now E) (\<lambda>t.
            seq (modify (\<lambda>s. s\<lparr>startup_time := Some t\<rparr>))
                (initialize_specialized_agents E)))))))))))
       (\<lambda>e. raise e)"

definition stop :: "unit prog" where
  "stop =
     try_except
       (seq (\<lambda>s. case ollama_client s of
                   None \<Rightarrow> ret () s
                 | Some oc \<Rightarrow> lift (oc_close oc) s)
            (modify (\<lambda>s. s\<lparr>is_running := False\<rparr>)))
       (\<lambda>e. ret ())"

definition get_system_insights :: "env \<Rightarrow> pyval prog" where
  "get_system_insights E = (\<lambda>s.
     bnd (case startup_time s of
            None \<Rightarrow> ret (PInt 0)
          | Some t0 \<Rightarrow>
              bnd (now E) (\<lambda>t.
                ret (PFloat (nearest_double E (total_seconds (t - t0)) / 3600))))
         (\<lambda>uptime_hours.
            bnd (\<lambda>s'. case context_manager s' of
                        None \<Rightarrow> ret (PDict []) s'
                      | Some cm \<Rightarrow> lift (cm_get_context_summary cm (cm_updates cm)) s')
                (\<lambda>context_insights.
                   ret (PDict [(''interaction_statistics'',
                                  PDict [(''total_interactions'', PInt (interaction_count s)),
                                         (''uptime_hours'', uptime_hours)]),
                               (''context_insights'', context_insights),
                               (''performance_metrics'', PDict [])]))) s)"

text \<open>The two status marks are single code points; the strings hold their UTF-8 bytes.\<close>

definition red_circle :: string where
  "red_circle = [CHR 0xF0, CHR 0x9F, CHR 0x94, CHR 0xB4]"

definition green_circle :: string where
  "green_circle = [CHR 0xF0, CHR 0x9F, CHR 0x9F, CHR 0xA2]"

definition get_status_summary :: "env \<Rightarrow> pyval prog" where
  "get_status_summary E = (\<lambda>s.
     if \<not> is_running s then ret (PStr (red_circle @ '' Central AI Brain is offline'')) s
     else
       bnd (case startup_time s of
              None \<Rightarrow> ret []
            | Some t0 \<Rightarrow>
                bnd (now E) (\<lambda>t.
                  ret ('' (uptime: ''
                       @ format_1f E (nearest_double E (total_seconds (t - t0)) / 3600)
                       @ ''h)'')))
           (\<lambda>uptime.
              ret (PStr (green_circle @ '' Central AI Brain is online'' @ uptime @ '' - ''
                         @ format_value E (PInt (interaction_count s))
                         @ '' interactions processed''))) s)"

section \<open>Conversational routing\<close>

definition base_prompt :: string where
  "base_prompt =
     ''You are the Central AI Brain of SelFlow, a self-creating AI operating system.\<newline>''
   @ ''\<newline>''
   @ ''Your personality:\<newline>''
   @ ''- Helpful and knowledgeable about the SelFlow system\<newline>''
   @ ''- Clear and concise in explanations\<newline>''
   @ ''- Proactive in offering assistance\<newline>''
   @ ''- Respectful of user privacy and preferences\<newline>''
   @ ''- Enthusiastic about AI and system capabilities\<newline>''
   @ ''\<newline>''
   @ ''Your core capabilities:\<newline>''
   @ ''- Answer questions about SelFlow functionality\<newline>''
   @ ''- Execute user commands by coordinating with specialized agents\<newline>''
   @ ''- Provide system status and insights\<newline>''
   @ ''- Offer proactive suggestions based on user patterns\<newline>''
   @ ''- Learn and adapt from interactions''"

definition get_system_prompt :: "string \<Rightarrow> string" where
  "get_system_prompt context_type =
     (if context_type = ''chat'' then
        base_prompt
        @ ''\<newline>\<newline>You are in casual conversation mode. Be friendly and helpful.''
      else if context_type = ''system_control'' then
        base_prompt
        @ ''\<newline>\<newline>You are in system control mode. Focus on understanding and executing system commands safely.''
      else if context_type = ''agent_orchestration'' then
        base_prompt
        @ ''\<newline>\<newline>You are coordinating multiple agents. Focus on task delegation and result synthesis.''
      else if context_type = ''embryo_training'' then
        base_prompt
        @ ''\<newline>\<newline>You are evaluating embryo training. Focus on pattern analysis and specialization recommendations.''
      else base_prompt)"

definition not_available_message :: string where
  "not_available_message =
     ''I apologize, but I'm not currently available. Please try again later.''"

definition not_running_result :: pyval where
  "not_running_result =
     PDict [(''success'', PBool False),
            (''error'', PStr ''Central AI Brain is not running''),
            (''message'', PStr not_available_message)]"

definition process_user_input :: "env \<Rightarrow> string \<Rightarrow> string \<Rightarrow> pyval prog" where
  "process_user_input E user_message context_type = (\<lambda>s.
     if \<not> is_running s then ret not_running_result s
     else
       try_except
         (seq (modify (\<lambda>s. s\<lparr>interaction_count := interaction_count s + 1\<rparr>))
         (bnd (now E) (\<lambda>start_time.
          bnd (build_context context_type user_message) (\<lambda>ctx.
          bnd (generate_response user_message
                 (PDict [(''conversation_history'', ctx)])
                 (get_system_prompt context_type)) (\<lambda>response.
          bnd (now E) (\<lambda>t1.
          seq (\<lambda>s. update_context
                 (PDict [(''user_message'', PStr user_message),
                         (''assistant_response'', PStr response),
                         (''context_type'', PStr context_type),
                         (''metadata'',
                            PDict [(''interaction_id'', PInt (interaction_count s)),
                                   (''response_time'',
                                      PFloat (total_seconds (t1 - start_time)))])]) s)
         (bnd (now E) (\<lambda>t2. (\<lambda>s.
            ret (PDict [(''success'', PBool True),
                        (''message'', PStr response),
                        (''context_type'', PStr context_type),
                        (''interaction_id'', PInt (interaction_count s)),
                        (''response_time'', PFloat (total_seconds (t2 - start_time)))]) s)
          ))))))))
         (\<lambda>e. ret (PDict [(''success'', PBool False),
                          (''error'', PStr (str_exn e)),
                          (''message'',
                             PStr ''I apologize, but I encountered an error processing your request. Please try again.'')]))
         s)"

definition chat_with_user_interface_agent :: "env \<Rightarrow> string \<Rightarrow> pyval \<Rightarrow> pyval prog" where
  "chat_with_user_interface_agent E message ctx = (\<lambda>s.
     if \<not> is_running s then ret not_running_result s
     else
       case user_interface s of
         None \<Rightarrow> process_user_input E message ''chat'' s
       | Some ui \<Rightarrow>
           try_except
             (lift (ui_process_chat_message ui message ctx))
             (\<lambda>e. process_user_input E message ''chat'') s)"

text \<open>
  The asynchronous generator \<^verbatim>\<open>stream_user_response\<close>, run by a consumer that pulls
  until it is exhausted: the value is the list of fragments it yields, in order.
  The client's stream is the fragments it produces and the exception, if any, that
  ends it. When the generator itself ends by raising (an exception its handler
  does not catch), the outcome is that exception; the fragments yielded before
  it are then not part of the value.
\<close>

definition stream_error_message :: string where
  "stream_error_message = ''I apologize, but I encountered an error. Please try again.''"

definition stream_user_response :: "string \<Rightarrow> string \<Rightarrow> string list prog" where
  "stream_user_response user_message context_type = (\<lambda>s.
     if \<not> is_running s then ret [not_available_message] s
     else
       case build_context context_type user_message s of
         (Inl e, s1) \<Rightarrow>
           if is_exception e then ret [stream_error_message] s1 else raise e s1
       | (Inr ctx, s1) \<Rightarrow>
           (case stream_response user_message
                   (PDict [(''conversation_history'', ctx)])
                   (get_system_prompt context_type) s1 of
              (Inl e, s2) \<Rightarrow>
                if is_exception e then ret [stream_error_message] s2 else raise e s2
            | (Inr (chunks, failure), s2) \<Rightarrow>
                (case failure of
                   Some e \<Rightarrow>
                     if is_exception e then ret (chunks @ [stream_error_message]) s2
                     else raise e s2
                 | None \<Rightarrow>
                     (case update_context
                             (PDict [(''user_message'', PStr user_message),
                                     (''assistant_response'',
                                        PStr (foldl (\<lambda>full_response chunk. full_response @ chunk)
                                                [] chunks)),
                                     (''context_type'', PStr context_type),
                                     (''metadata'',
                                        PDict [(''interaction_id'',
                                                  PInt (interaction_count s2))])]) s2 of
                        (Inl e, s3) \<Rightarrow>
                          if is_exception e then ret (chunks @ [stream_error_message]) s3
                          else raise e s3
                      | (Inr _, s3) \<Rightarrow> ret chunks s3))))"

section \<open>Conversational turns interleaved at their suspension points\<close>

text \<open>
  \<^verbatim>\<open>process_user_input\<close> is a coroutine. It runs without interruption up to an
  \<^verbatim>\<open>await\<close>, where the event loop may run other coroutines, and goes on when the
  awaited call has an outcome. It awaits three times: \<^verbatim>\<open>build_context\<close>,
  \<^verbatim>\<open>generate_response\<close> and \<^verbatim>\<open>update_context\<close>. A \<open>turn\<close> is one call of it in
  progress: where it stands, its arguments and local variables (\<^verbatim>\<open>start_time\<close>,
  \<^verbatim>\<open>response\<close>), and the outcome the pending call will deliver. The attributes of
  the brain are not local: every segment reads them as they are when it runs.
  A collaborator's call takes effect when it is made.
\<close>

datatype turn =
    Called string string
  | AwaitingContext string string datetime "exn + pyval"
  | AwaitingResponse string string datetime "exn + string"
  | AwaitingUpdate string string datetime string "exn + unit"
  | Returned "exn + pyval"

text \<open>The handler of \<^verbatim>\<open>process_user_input\<close>, reached from whichever \<^verbatim>\<open>await\<close> raised.\<close>

definition turn_failed :: "exn \<Rightarrow> turn" where
  "turn_failed e =
     (if is_exception e then
        Returned (Inr (PDict [(''success'', PBool False),
                              (''error'', PStr (str_exn e)),
                              (''message'',
                                 PStr ''I apologize, but I encountered an error processing your request. Please try again.'')]))
      else Returned (Inl e))"

text \<open>One segment of a turn: from where it stands to its next \<^verbatim>\<open>await\<close>, or to its end.\<close>

fun step :: "env \<Rightarrow> turn \<Rightarrow> brain \<Rightarrow> turn \<times> brain" where
  "step E (Called user_message context_type) s =
     (if \<not> is_running s then (Returned (Inr not_running_result), s)
      else
        (case now E (s\<lparr>interaction_count := interaction_count s + 1\<rparr>) of
           (Inl e, s1) \<Rightarrow> (turn_failed e, s1)
         | (Inr start_time, s1) \<Rightarrow>
             (case build_context context_type user_message s1 of
                (outcome, s2) \<Rightarrow>
                  (AwaitingContext user_message context_type start_time outcome, s2))))"
| "step E (AwaitingContext user_message context_type start_time outcome) s =
     (case outcome of
        Inl e \<Rightarrow> (turn_failed e, s)
      | Inr ctx \<Rightarrow>
          (case generate_response user_message
                  (PDict [(''conversation_history'', ctx)])
                  (get_system_prompt context_type) s of
             (outcome', s1) \<Rightarrow>
               (AwaitingResponse user_message context_type start_time outcome', s1)))"
| "step E (AwaitingResponse user_message context_type start_time outcome) s =
     (case outcome of
        Inl e \<Rightarrow> (turn_failed e, s)
      | Inr response \<Rightarrow>
          (case now E s of
             (Inl e, s1) \<Rightarrow> (turn_failed e, s1)
           | (Inr t1, s1) \<Rightarrow>
               (case update_context
                       (PDict [(''user_message'', PStr user_message),
                               (''assistant_response'', PStr response),
                               (''context_type'', PStr context_type),
                               (''metadata'',
                                  PDict [(''interaction_id'', PInt (interaction_count s1)),
                                         (''response_time'',
                                            PFloat (total_seconds (t1 - start_time)))])]) s1 of
                  (outcome', s2) \<Rightarrow>
                    (AwaitingUpdate user_message context_type start_time response outcome',
                     s2))))"
| "step E (AwaitingUpdate user_message context_type start_time response outcome) s =
     (case outcome of
        Inl e \<Rightarrow> (turn_failed e, s)
      | Inr _ \<Rightarrow>
          (case now E s of
             (Inl e, s1) \<Rightarrow> (turn_failed e, s1)
           | (Inr t2, s1) \<Rightarrow>
               (Returned
                  (Inr (PDict [(''success'', PBool True),
                               (''message'', PStr response),
                               (''context_type'', PStr context_type),
                               (''interaction_id'', PInt (interaction_count s1)),
                               (''response_time'',
                                  PFloat (total_seconds (t2 - start_time)))])),
                s1)))"
| "step E (Returned r) s = (Returned r, s)"

text \<open>A turn run on its own: \<open>n\<close> segments one after the other.\<close>

fun steps :: "env \<Rightarrow> nat \<Rightarrow> turn \<Rightarrow> brain \<Rightarrow> turn \<times> brain" where
  "steps E 0 t s = (t, s)"
| "steps E (Suc n) t s = (case step E t s of (t', s') \<Rightarrow> steps E n t' s')"

text \<open>
  Several turns on one brain, as the event loop runs them: the schedule names, one
  after the other, the turn that runs its next segment. A number that names no
  turn is skipped.
\<close>

fun run_schedule :: "env \<Rightarrow> nat list \<Rightarrow> turn list \<Rightarrow> brain \<Rightarrow> turn list \<times> brain" where
  "run_schedule E [] ts s = (ts, s)"
| "run_schedule E (i # sched) ts s =
     (if i < length ts then
        (case step E (ts ! i) s of (t', s') \<Rightarrow> run_schedule E sched (ts[i := t']) s')
      else run_schedule E sched ts s)"

fun just_called :: "turn \<Rightarrow> bool" where
  "just_called (Called _ _) = True"
| "just_called _ = False"

section \<open>Delegation to specialized agents and remaining operations\<close>

definition brain_not_running :: pyval where
  "brain_not_running =
     PDict [(''success'', PBool False), (''error'', PStr ''Central AI Brain is not running'')]"

definition failure_of :: "exn \<Rightarrow> pyval" where
  "failure_of e = PDict [(''success'', PBool False), (''error'', PStr (str_exn e))]"

definition coordinate_system_action :: "env \<Rightarrow> dict \<Rightarrow> pyval prog" where
  "coordinate_system_action E action = (\<lambda>s.
     if \<not> is_running s then ret brain_not_running s
     else
       try_except
         (bnd (ret (case map_of action ''type'' of None \<Rightarrow> PStr ''unknown'' | Some v \<Rightarrow> v))
            (\<lambda>action_type.
          bnd (now E) (\<lambda>t.
            ret (PDict [(''success'', PBool True),
                        (''action_type'', action_type),
                        (''message'',
                           PStr (''System action '' @ quoted (format_value E action_type)
                                 @ '' coordinated successfully'')),
                        (''timestamp'', PStr (isoformat E t))]))))
         (\<lambda>e. ret (failure_of e)) s)"

definition orchestrate_complex_task :: "string \<Rightarrow> pyval \<Rightarrow> pyval prog" where
  "orchestrate_complex_task task_description ctx = (\<lambda>s.
     if \<not> is_running s then ret brain_not_running s
     else
       case agent_orchestrator s of
         None \<Rightarrow>
           ret (PDict [(''success'', PBool False),
                       (''error'', PStr ''Agent Orchestrator not available'')]) s
       | Some ao \<Rightarrow>
           try_except
             (bnd (lift (ao_coordinate_task ao task_description ctx)) (\<lambda>result.
              seq (lift (py_get result ''success'' (PBool False)))
                  (ret result)))
             (\<lambda>e. ret (failure_of e)) s)"

definition update_system_state :: "env \<Rightarrow> dict \<Rightarrow> pyval prog" where
  "update_system_state E state_update = (\<lambda>s.
     case context_manager s of
       None \<Rightarrow> ret PNone s
     | Some cm \<Rightarrow>
         bnd (now E) (\<lambda>t.
         seq (update_context
                (PDict [(''system_state'', PDict state_update),
                        (''metadata'', PDict [(''update_time'', PStr (isoformat E t))])]))
             (ret PNone)) s)"

definition validate_patterns :: "pyval list \<Rightarrow> pyval prog" where
  "validate_patterns patterns =
     ret (PDict [(''validated_patterns'', PList patterns),
                 (''validation_score'', PFloat (85 / 100)),
                 (''recommendations'', PList [PStr ''Pattern validation placeholder''])])"

definition trainer_not_available :: pyval where
  "trainer_not_available =
     PDict [(''success'', PBool False), (''error'', PStr ''Embryo Trainer not available'')]"

definition generate_training_labels :: "pyval list \<Rightarrow> pyval prog" where
  "generate_training_labels events = (\<lambda>s.
     if \<not> is_running s then ret brain_not_running s
     else
       case embryo_trainer s of
         None \<Rightarrow> ret trainer_not_available s
       | Some et \<Rightarrow>
           try_except
             (bnd (lift (et_generate_training_labels et events)) (\<lambda>result.
              seq (lift (py_get result ''success'' (PBool False)))
                  (ret result)))
             (\<lambda>e. ret (failure_of e)) s)"

definition validate_embryo_training :: "dict \<Rightarrow> pyval prog" where
  "validate_embryo_training embryo_data = (\<lambda>s.
     if \<not> is_running s then ret brain_not_running s
     else
       case embryo_trainer s of
         None \<Rightarrow> ret trainer_not_available s
       | Some et \<Rightarrow>
           try_except
             (bnd (lift (et_validate_embryo_training et embryo_data)) (\<lambda>result.
              seq (lift (py_get result ''success'' (PBool False)))
                  (ret result)))
             (\<lambda>e. ret (failure_of e)) s)"

definition assess_embryo_birth_readiness :: "dict \<Rightarrow> pyval prog" where
  "assess_embryo_birth_readiness embryo_data = (\<lambda>s.
     if \<not> is_running s then ret brain_not_running s
     else
       case embryo_trainer s of
         None \<Rightarrow> ret trainer_not_available s
       | Some et \<Rightarrow>
           try_except
             (bnd (lift (et_assess_birth_readiness et embryo_data)) (\<lambda>result.
              seq (lift (py_get result ''success'' (PBool False)))
                  (ret result)))
             (\<lambda>e. ret (failure_of e)) s)"

section \<open>The public interface\<close>

text \<open>
  One constructor per public method of \<^verbatim>\<open>CentralAIBrain\<close>, with its arguments.
  \<open>run_op\<close> calls it; the fragments of the streaming generator are returned as
  a list, and a method with no \<^verbatim>\<open>return\<close> gives \<^verbatim>\<open>None\<close>.
\<close>

datatype operation =
    Start
  | Stop
  | ProcessUserInput string string
  | ChatWithUserInterfaceAgent string pyval
  | StreamUserResponse string string
  | CoordinateSystemAction dict
  | OrchestrateComplexTask string pyval
  | GetHealthStatus
  | GetSystemInsights
  | UpdateSystemState dict
  | ValidatePatterns "pyval list"
  | GenerateTrainingLabels "pyval list"
  | ValidateEmbryoTraining dict
  | AssessEmbryoBirthReadiness dict
  | GetStatusSummary
  | TranslateUserCommand string pyval
  | ExecuteSystemAction system_action
  | ProcessUserCommand string pyval

fun run_op :: "env \<Rightarrow> operation \<Rightarrow> pyval prog" where
  "run_op E Start = seq (start E) (ret PNone)"
| "run_op E Stop = seq stop (ret PNone)"
| "run_op E (ProcessUserInput m ct) = process_user_input E m ct"
| "run_op E (ChatWithUserInterfaceAgent m c) = chat_with_user_interface_agent E m c"
| "run_op E (StreamUserResponse m ct) =
     bnd (stream_user_response m ct) (\<lambda>fragments. ret (PList (map PStr fragments)))"
| "run_op E (CoordinateSystemAction a) = coordinate_system_action E a"
| "run_op E (OrchestrateComplexTask t c) = orchestrate_complex_task t c"
| "run_op E GetHealthStatus = get_health_status E"
| "run_op E GetSystemInsights = get_system_insights E"
| "run_op E (UpdateSystemState u) = update_system_state E u"
| "run_op E (ValidatePatterns ps) = validate_patterns ps"
| "run_op E (GenerateTrainingLabels es) = generate_training_labels es"
| "run_op E (ValidateEmbryoTraining d) = validate_embryo_training d"
| "run_op E (AssessEmbryoBirthReadiness d) = assess_embryo_birth_readiness d"
| "run_op E GetStatusSummary = get_status_summary E"
| "run_op E (TranslateUserCommand c u) = translate_user_command c u"
| "run_op E (ExecuteSystemAction a) = execute_system_action a"
| "run_op E (ProcessUserCommand c u) = process_user_command c u"

text \<open>The lifecycle operations and the health and status reads.\<close>

fun lifecycle_or_status :: "operation \<Rightarrow> bool" where
  "lifecycle_or_status Start = True"
| "lifecycle_or_status Stop = True"
| "lifecycle_or_status GetHealthStatus = True"
| "lifecycle_or_status GetSystemInsights = True"
| "lifecycle_or_status GetStatusSummary = True"
| "lifecycle_or_status _ = False"

text \<open>The operations whose body starts with a test of \<^verbatim>\<open>self.is_running\<close>.\<close>

fun checks_running :: "operation \<Rightarrow> bool" where
  "checks_running (ProcessUserInput _ _) = True"
| "checks_running (ChatWithUserInterfaceAgent _ _) = True"
| "checks_running (CoordinateSystemAction _) = True"
| "checks_running (OrchestrateComplexTask _ _) = True"
| "checks_running (GenerateTrainingLabels _) = True"
| "checks_running (ValidateEmbryoTraining _) = True"
| "checks_running (AssessEmbryoBirthReadiness _) = True"
| "checks_running (TranslateUserCommand _ _) = True"
| "checks_running (ExecuteSystemAction _) = True"
| "checks_running (ProcessUserCommand _ _) = True"
| "checks_running _ = False"

text \<open>A structured failure: a returned dictionary whose \<^verbatim>\<open>success\<close> is \<^verbatim>\<open>False\<close>.\<close>

definition is_failure :: "exn + pyval \<Rightarrow> bool" where
  "is_failure r =
     (case r of
        Inr (PDict d) \<Rightarrow> map_of d ''success'' = Some (PBool False)
      | _ \<Rightarrow> False)"

definition raises :: "exn + 'a \<Rightarrow> bool" where
  "raises r = (case r of Inl _ \<Rightarrow> True | Inr _ \<Rightarrow> False)"

text \<open>Running a sequence of operations, whatever each returns or raises.\<close>

fun run_ops :: "env \<Rightarrow> operation list \<Rightarrow> brain \<Rightarrow> brain" where
  "run_ops E [] s = s"
| "run_ops E (op # ops) s = run_ops E ops (snd (run_op E op s))"

section \<open>Example collaborators\<close>

text \<open>Concrete collaborators and states on which the properties below are evaluated.\<close>

definition healthy_client :: ollama_client where
  "healthy_client =
     \<lparr> oc_start = Inr (),
       oc_close = Inr (),
       oc_generate_response = (\<lambda>prompt ctx system_prompt. Inr ''Hello there''),
       oc_stream_response = (\<lambda>prompt ctx system_prompt. ([''Hello'', '' there''], None)),
       oc_get_health_status =
         Inr (PDict [(''is_healthy'', PBool True), (''model_name'', PStr ''llama'')]) \<rparr>"

definition unhealthy_client :: ollama_client where
  "unhealthy_client =
     healthy_client\<lparr> oc_get_health_status :=
       Inr (PDict [(''is_healthy'', PBool False), (''model_name'', PStr ''llama'')]) \<rparr>"

definition failing_client :: ollama_client where
  "failing_client =
     healthy_client\<lparr>
       oc_generate_response := (\<lambda>prompt ctx system_prompt. Inl (Exception ''timeout'')),
       oc_stream_response :=
         (\<lambda>prompt ctx system_prompt. ([''Hel''], Some (Exception ''timeout''))) \<rparr>"

definition example_context_manager :: context_manager where
  "example_context_manager =
     \<lparr> cm_build_context = (\<lambda>store interaction_type user_message. Inr (PList store)),
       cm_update_context = (\<lambda>r. Inr ()),
       cm_get_context_summary = (\<lambda>store. Inr (PInt (int (length store)))),
       cm_updates = [] \<rparr>"

text \<open>A translator that answers with the command itself as the disposition.\<close>

definition example_controller :: system_controller where
  "example_controller =
     \<lparr> sc_translate_user_command =
         (\<lambda>user_command user_context.
            Inr \<lparr> action_id = ''a1'', recommended_action = user_command,
                  user_feedback = ''feedback'' \<rparr>),
       sc_execute_system_action =
         (\<lambda>a. Inr (PDict [(''success'', PBool True), (''message'', PStr ''done'')])),
       sc_executed = [] \<rparr>"

definition echo_agent :: user_interface_agent where
  "echo_agent =
     \<lparr> ui_process_chat_message =
         (\<lambda>message ctx. Inr (PDict [(''success'', PBool True), (''message'', PStr message)])) \<rparr>"

definition broken_agent :: user_interface_agent where
  "broken_agent = \<lparr> ui_process_chat_message = (\<lambda>message ctx. Inl (Exception ''agent down'')) \<rparr>"

text \<open>An agent whose call is cancelled while the brain awaits it.\<close>

definition cancelled_agent :: user_interface_agent where
  "cancelled_agent = \<lparr> ui_process_chat_message = (\<lambda>message ctx. Inl (CancelledError [])) \<rparr>"

definition example_orchestrator :: agent_orchestrator where
  "example_orchestrator =
     \<lparr> ao_coordinate_task = (\<lambda>task ctx. Inr (PDict [(''success'', PBool True)])) \<rparr>"

definition example_trainer :: embryo_trainer where
  "example_trainer =
     \<lparr> et_generate_training_labels = (\<lambda>events. Inr (PDict [(''success'', PBool True)])),
       et_validate_embryo_training = (\<lambda>d. Inr (PDict [(''success'', PBool True)])),
       et_assess_birth_readiness = (\<lambda>d. Inr (PDict [(''success'', PBool True)])) \<rparr>"

text \<open>
  An environment whose constructors all succeed and whose clock advances by one
  second at each reading. The examples never compute with a rounded float or
  format a value, so those built-ins are left trivial.
\<close>

definition example_env :: env where
  "example_env =
     \<lparr> new_OllamaClient = (\<lambda>cfg. Inr healthy_client),
       new_ContextManager = (\<lambda>cfg. Inr example_context_manager),
       new_UserInterfaceAgent = Inr echo_agent,
       new_AgentOrchestrator = Inr example_orchestrator,
       new_EmbryoTrainer = Inr example_trainer,
       new_SystemController = Inr example_controller,
       datetime_now = (\<lambda>n. 1000000 * int n),
       isoformat = (\<lambda>t. ''2024-01-01T00:00:00''),
       format_value = (\<lambda>v. ''?''),
       format_1f = (\<lambda>r. ''0.0''),
       nearest_double = (\<lambda>r. r) \<rparr>"

definition unhealthy_env :: env where
  "unhealthy_env = example_env\<lparr> new_OllamaClient := (\<lambda>cfg. Inr unhealthy_client) \<rparr>"

text \<open>
  A freshly constructed brain; the brain that \<open>start example_env\<close> makes of it; and
  variations of that one.
\<close>

definition fresh_brain :: brain where
  "fresh_brain = init []"

definition running_brain :: brain where
  "running_brain =
     fresh_brain\<lparr> ollama_client := Some healthy_client,
                  context_manager := Some example_context_manager,
                  user_interface := Some echo_agent,
                  agent_orchestrator := Some example_orchestrator,
                  embryo_trainer := Some example_trainer,
                  system_controller := Some example_controller,
                  is_running := True,
                  startup_time := Some 0,
                  clock_reads := 1 \<rparr>"

definition stopped_brain_with_controller :: brain where
  "stopped_brain_with_controller = running_brain\<lparr> is_running := False \<rparr>"

definition running_brain_without_controller :: brain where
  "running_brain_without_controller = running_brain\<lparr> system_controller := None \<rparr>"

definition running_brain_with_failing_client :: brain where
  "running_brain_with_failing_client = running_brain\<lparr> ollama_client := Some failing_client \<rparr>"

definition running_brain_with_cancelled_agent :: brain where
  "running_brain_with_cancelled_agent = running_brain\<lparr> user_interface := Some cancelled_agent \<rparr>"

text \<open>A stopped brain whose Context Store refuses every write.\<close>

definition stopped_brain_with_broken_store :: brain where
  "stopped_brain_with_broken_store =
     running_brain\<lparr>
       context_manager :=
         Some (example_context_manager\<lparr>
                 cm_update_context := (\<lambda>r. Inl (Exception ''store offline'')) \<rparr>),
       is_running := False \<rparr>"

section \<open>Observing a conversational turn\<close>

text \<open>
  The \<^verbatim>\<open>interaction_id\<close> a completed turn reports: that of a returned dictionary
  whose \<^verbatim>\<open>success\<close> is \<^verbatim>\<open>True\<close>.
\<close>

definition turn_id :: "exn + pyval \<Rightarrow> int option" where
  "turn_id r =
     (case r of
        Inr (PDict d) \<Rightarrow>
          (if map_of d ''success'' = Some (PBool True) then
             (case map_of d ''interaction_id'' of Some (PInt i) \<Rightarrow> Some i | _ \<Rightarrow> None)
           else None)
      | _ \<Rightarrow> None)"

text \<open>The same for a turn of the interleaved model, once it has returned.\<close>

fun returned_id :: "turn \<Rightarrow> int option" where
  "returned_id (Returned r) = turn_id r"
| "returned_id _ = None"

section \<open>Basic facts about the control-flow combinators\<close>

lemmas prog_defs = ret_def raise_def lift_def bnd_def seq_def modify_def try_except_def

lemma snd_seq_ret: "snd (seq m (ret x) s) = snd (m s)"
  by (simp add: prog_defs split: prod.splits sum.splits)

lemma snd_bnd_ret: "snd (bnd m (\<lambda>x. ret (f x)) s) = snd (m s)"
  by (simp add: prog_defs split: prod.splits sum.splits)

lemma foldl_append_concat: "foldl (\<lambda>full chunk. full @ chunk) acc chunks = acc @ concat chunks"
  by (induction chunks arbitrary: acc) simp_all

section \<open>What each operation does to the counter and to the start time\<close>

lemma process_user_input_not_running:
  "\<not> is_running s \<Longrightarrow> process_user_input E m ct s = (Inr not_running_result, s)"
  by (simp add: process_user_input_def prog_defs)

lemma process_user_input_raises:
  "fst (process_user_input E m ct s) = Inl e \<Longrightarrow> \<not> is_exception e"
  by (auto simp: process_user_input_def prog_defs now_def build_context_def
      generate_response_def update_context_def not_running_result_def
      split: option.splits sum.splits prod.splits if_splits)

lemma process_user_input_count:
  "interaction_count (snd (process_user_input E m ct s)) =
     (if is_running s then interaction_count s + 1 else interaction_count s)"
  by (auto simp: process_user_input_def prog_defs now_def build_context_def
      generate_response_def update_context_def not_running_result_def
      split: option.splits sum.splits prod.splits if_splits)

lemma process_user_input_startup_time:
  "startup_time (snd (process_user_input E m ct s)) = startup_time s"
  by (auto simp: process_user_input_def prog_defs now_def build_context_def
      generate_response_def update_context_def not_running_result_def
      split: option.splits sum.splits prod.splits if_splits)

lemma stream_user_response_frame:
  "interaction_count (snd (stream_user_response m ct s)) = interaction_count s
   \<and> startup_time (snd (stream_user_response m ct s)) = startup_time s"
  by (auto simp: stream_user_response_def prog_defs build_context_def
      stream_response_def update_context_def
      split: option.splits sum.splits prod.splits if_splits)

lemma chat_count:
  "interaction_count s \<le> interaction_count (snd (chat_with_user_interface_agent E m c s))"
  by (auto simp: chat_with_user_interface_agent_def process_user_input_count prog_defs
      split: option.splits sum.splits prod.splits if_splits)

lemma chat_startup_time:
  "startup_time (snd (chat_with_user_interface_agent E m c s)) = startup_time s"
  by (auto simp: chat_with_user_interface_agent_def process_user_input_startup_time prog_defs
      split: option.splits sum.splits prod.splits if_splits)

lemma get_health_status_state: "snd (get_health_status E s) = s"
  by (auto simp: get_health_status_def prog_defs
      split: option.splits sum.splits prod.splits)

lemma initialize_specialized_agents_frame:
  "initialize_specialized_agents E s = (r, s') \<Longrightarrow>
     interaction_count s' = interaction_count s \<and> is_running s' = is_running s
     \<and> startup_time s' = startup_time s \<and> clock_reads s' = clock_reads s
     \<and> (\<forall>e. r = Inl e \<longrightarrow> \<not> is_exception e)"
  by (auto simp: initialize_specialized_agents_def prog_defs
      split: option.splits sum.splits prod.splits if_splits)

lemma initialize_specialized_agents_snd:
  "interaction_count (snd (initialize_specialized_agents E s)) = interaction_count s"
  "is_running (snd (initialize_specialized_agents E s)) = is_running s"
  "startup_time (snd (initialize_specialized_agents E s)) = startup_time s"
  "clock_reads (snd (initialize_specialized_agents E s)) = clock_reads s"
  using initialize_specialized_agents_frame [of E s] by (metis prod.collapse)+

lemma initialize_specialized_agents_raises:
  "fst (initialize_specialized_agents E s) = Inl e \<Longrightarrow> \<not> is_exception e"
  using initialize_specialized_agents_frame [of E s] by (metis prod.collapse)

lemmas start_simps =
  start_def prog_defs now_def split_beta get_health_status_state
  initialize_specialized_agents_snd raises_def

lemma start_count: "interaction_count (snd (start E s)) = interaction_count s"
  by (auto simp: start_simps split: sum.splits if_splits)

lemma stop_frame:
  "interaction_count (snd (stop s)) = interaction_count s
   \<and> startup_time (snd (stop s)) = startup_time s"
  by (auto simp: stop_def prog_defs split: option.splits sum.splits prod.splits if_splits)

lemma stop_raises: "fst (stop s) = Inl e \<Longrightarrow> \<not> is_exception e"
  by (auto simp: stop_def prog_defs split: option.splits sum.splits prod.splits if_splits)

lemma coordinate_system_action_frame:
  "interaction_count (snd (coordinate_system_action E a s)) = interaction_count s
   \<and> startup_time (snd (coordinate_system_action E a s)) = startup_time s"
  by (auto simp: coordinate_system_action_def prog_defs now_def
      split: option.splits sum.splits prod.splits if_splits)

lemma orchestrate_complex_task_state: "snd (orchestrate_complex_task t c s) = s"
  by (auto simp: orchestrate_complex_task_def prog_defs
      split: option.splits sum.splits prod.splits if_splits)

lemma get_system_insights_frame:
  "interaction_count (snd (get_system_insights E s)) = interaction_count s
   \<and> startup_time (snd (get_system_insights E s)) = startup_time s"
  by (auto simp: get_system_insights_def prog_defs now_def
      split: option.splits sum.splits prod.splits if_splits)

lemma update_system_state_frame:
  "interaction_count (snd (update_system_state E u s)) = interaction_count s
   \<and> startup_time (snd (update_system_state E u s)) = startup_time s"
  by (auto simp: update_system_state_def prog_defs now_def update_context_def
      split: option.splits sum.splits prod.splits if_splits)

lemma validate_patterns_state: "snd (validate_patterns ps s) = s"
  by (simp add: validate_patterns_def prog_defs)

lemma generate_training_labels_state: "snd (generate_training_labels es s) = s"
  by (auto simp: generate_training_labels_def prog_defs
      split: option.splits sum.splits prod.splits if_splits)

lemma validate_embryo_training_state: "snd (validate_embryo_training d s) = s"
  by (auto simp: validate_embryo_training_def prog_defs
      split: option.splits sum.splits prod.splits if_splits)

lemma assess_embryo_birth_readiness_state: "snd (assess_embryo_birth_readiness d s) = s"
  by (auto simp: assess_embryo_birth_readiness_def prog_defs
      split: option.splits sum.splits prod.splits if_splits)

lemma get_status_summary_frame:
  "interaction_count (snd (get_status_summary E s)) = interaction_count s
   \<and> startup_time (snd (get_status_summary E s)) = startup_time s"
  by (auto simp: get_status_summary_def prog_defs now_def
      split: option.splits sum.splits prod.splits if_splits)

lemma translate_user_command_state: "snd (translate_user_command c u s) = s"
  by (auto simp: translate_user_command_def sc_translate_def prog_defs
      split: option.splits sum.splits prod.splits if_splits)

lemma execute_system_action_frame:
  "interaction_count (snd (execute_system_action a s)) = interaction_count s
   \<and> startup_time (snd (execute_system_action a s)) = startup_time s"
  by (auto simp: execute_system_action_def sc_execute_def prog_defs
      split: option.splits sum.splits prod.splits if_splits)

lemma process_user_command_frame:
  "interaction_count (snd (process_user_command c u s)) = interaction_count s
   \<and> startup_time (snd (process_user_command c u s)) = startup_time s"
proof -
  have t: "snd (translate_user_command c u s) = s"
    by (rule translate_user_command_state)
  show ?thesis
    using execute_system_action_frame [of _ s]
    by (auto simp: process_user_command_def prog_defs split_beta t
        split: sum.splits if_splits)
qed

lemma run_op_count: "interaction_count s \<le> interaction_count (snd (run_op E op s))"
  by (cases op)
     (simp_all add: snd_seq_ret snd_bnd_ret start_count stop_frame process_user_input_count
        chat_count stream_user_response_frame coordinate_system_action_frame
        orchestrate_complex_task_state get_health_status_state get_system_insights_frame
        update_system_state_frame validate_patterns_state generate_training_labels_state
        validate_embryo_training_state assess_embryo_birth_readiness_state
        get_status_summary_frame translate_user_command_state execute_system_action_frame
        process_user_command_frame)

lemma run_ops_count: "interaction_count s \<le> interaction_count (run_ops E ops s)"
proof (induction ops arbitrary: s)
  case Nil
  show ?case by simp
next
  case (Cons op ops)
  have "interaction_count s \<le> interaction_count (snd (run_op E op s))"
    by (rule run_op_count)
  also have "\<dots> \<le> interaction_count (run_ops E ops (snd (run_op E op s)))"
    by (rule Cons.IH)
  finally show ?case by simp
qed

lemma run_op_startup_time:
  "op \<noteq> Start \<Longrightarrow> startup_time (snd (run_op E op s)) = startup_time s"
  by (cases op)
     (simp_all add: snd_seq_ret snd_bnd_ret stop_frame process_user_input_startup_time
        chat_startup_time stream_user_response_frame coordinate_system_action_frame
        orchestrate_complex_task_state get_health_status_state get_system_insights_frame
        update_system_state_frame validate_patterns_state generate_training_labels_state
        validate_embryo_training_state assess_embryo_birth_readiness_state
        get_status_summary_frame translate_user_command_state execute_system_action_frame
        process_user_command_frame)

lemma run_ops_startup_time:
  "Start \<notin> set ops \<Longrightarrow> startup_time (run_ops E ops s) = startup_time s"
proof (induction ops arbitrary: s)
  case Nil
  show ?case by simp
next
  case (Cons op ops)
  from Cons.prems have "op \<noteq> Start" and rest: "Start \<notin> set ops"
    by auto
  then have "startup_time (snd (run_op E op s)) = startup_time s"
    by (simp add: run_op_startup_time)
  with Cons.IH [OF rest] show ?case by simp
qed

section \<open>Interleaved turns\<close>

lemma step_count:
  "interaction_count (snd (step E t s)) =
     (if is_running s \<and> just_called t then interaction_count s + 1 else interaction_count s)"
  by (cases t)
     (auto simp: now_def build_context_def generate_response_def update_context_def
        turn_failed_def
        split: option.splits sum.splits prod.splits if_splits)

lemma run_schedule_count:
  "interaction_count s \<le> interaction_count (snd (run_schedule E sched ts s))"
proof (induction sched arbitrary: ts s)
  case Nil
  show ?case by simp
next
  case (Cons i sched)
  show ?case
  proof (cases "i < length ts")
    case True
    have "interaction_count s \<le> interaction_count (snd (step E (ts ! i) s))"
      by (simp add: step_count)
    also have "\<dots> \<le> interaction_count
        (snd (run_schedule E sched (ts[i := fst (step E (ts ! i) s)]) (snd (step E (ts ! i) s))))"
      by (rule Cons.IH)
    finally show ?thesis
      using True by (simp add: split_beta)
  next
    case False
    then show ?thesis
      by (simp add: Cons.IH)
  qed
qed

text \<open>A turn that runs alone, all four segments in a row, is \<^verbatim>\<open>process_user_input\<close>.\<close>

lemma turn_run_alone:
  "steps E 4 (Called m ct) s =
     (Returned (fst (process_user_input E m ct s)), snd (process_user_input E m ct s))"
  by (auto simp: eval_nat_numeral process_user_input_def prog_defs now_def build_context_def
      generate_response_def update_context_def turn_failed_def
      split: option.splits sum.splits prod.splits if_splits)

section \<open>The execution gate of the command pipeline\<close>



text \<open>
  C10. When the brain is running and the translator returns a \<^verbatim>\<open>SystemAction\<close> whose
  \<^verbatim>\<open>recommended_action\<close> is any string other than \<^verbatim>\<open>execute\<close>,
  \<^verbatim>\<open>request_confirmation\<close> and \<^verbatim>\<open>request_clarification\<close> (so \<^verbatim>\<open>deny\<close>, and also every
  value outside the four dispositions), \<^verbatim>\<open>process_user_command\<close> returns the failure
  \<^verbatim>\<open>{success: False, message: user_feedback, action_id, recommended_action}\<close>, leaves
  the state as it was and does not invoke the Action Executor.
\<close>

theorem other_disposition_is_denied:
  assumes "is_running s"
    and "system_controller s = Some sc"
    and "sc_translate_user_command sc user_command user_context = Inr a"
    and "recommended_action a \<noteq> ''execute''"
    and "recommended_action a \<noteq> ''request_confirmation''"
    and "recommended_action a \<noteq> ''request_clarification''"
  shows "process_user_command user_command user_context s =
           (Inr (PDict [(''success'', PBool False),
                        (''message'', PStr (user_feedback a)),
                        (''action_id'', PStr (action_id a)),
                        (''recommended_action'', PStr (recommended_action a))]), s)
         \<and> executor_calls (snd (process_user_command user_command user_context s)) =
             executor_calls s"
  using assms
  by (simp add: process_user_command_def translate_user_command_def sc_translate_def
      prog_defs)

theorem other_disposition_is_denied_witness:
  "process_user_command ''format_disk'' PNone running_brain =
     (Inr (PDict [(''success'', PBool False),
                  (''message'', PStr ''feedback''),
                  (''action_id'', PStr ''a1''),
                  (''recommended_action'', PStr ''format_disk'')]), running_brain)
   \<and> executor_calls (snd (process_user_command ''format_disk'' PNone running_brain)) = []"
  using other_disposition_is_denied [of running_brain example_controller "''format_disk''" PNone
      "\<lparr> action_id = ''a1'', recommended_action = ''format_disk'', user_feedback = ''feedback'' \<rparr>"]
  by (simp add: running_brain_def fresh_brain_def init_def example_controller_def
      executor_calls_def)

section \<open>Failure kinds of the command pipeline\<close>

text \<open>
  C8, as stated: a call of \<^verbatim>\<open>translate_user_command\<close> made while not running and a
  call made while running without the command translator would give failures of
  different kinds. They do not: a stopped brain that has its controller and a
  running brain without one return the same dictionary, and its error text is the
  one naming the controller, not the not-running message. The same holds for
  \<^verbatim>\<open>process_user_command\<close>.
\<close>

theorem not_running_and_absent_translator_same_failure:
  "\<not> is_running stopped_brain_with_controller
   \<and> system_controller stopped_brain_with_controller = Some example_controller
   \<and> is_running running_brain_without_controller
   \<and> system_controller running_brain_without_controller = None
   \<and> fst (translate_user_command ''show status'' PNone stopped_brain_with_controller) =
       fst (translate_user_command ''show status'' PNone running_brain_without_controller)
   \<and> fst (process_user_command ''show status'' PNone stopped_brain_with_controller) =
       fst (process_user_command ''show status'' PNone running_brain_without_controller)
   \<and> fst (translate_user_command ''show status'' PNone stopped_brain_with_controller) =
       Inr (PDict [(''success'', PBool False),
                   (''error'', PStr ''SystemController not available''),
                   (''action'', PNone)])"
  by (simp add: stopped_brain_with_controller_def running_brain_without_controller_def
      running_brain_def fresh_brain_def init_def process_user_command_def
      translate_user_command_def prog_defs)

text \<open>
  C8, amended. \<^verbatim>\<open>translate_user_command\<close>, and hence \<^verbatim>\<open>process_user_command\<close>, guard
  both conditions with one test: when the brain is not running or the command
  translator is absent, each returns the failure \<^verbatim>\<open>{success: False, error:
  "SystemController not available", action: None}\<close> and changes nothing;
  \<^verbatim>\<open>execute_system_action\<close> does the same without the \<^verbatim>\<open>action\<close> key. Nothing is raised
  and the two conditions are not told apart.
\<close>

theorem unavailable_controller_failure:
  assumes "\<not> is_running s \<or> system_controller s = None"
  shows "translate_user_command user_command user_context s =
           (Inr (PDict [(''success'', PBool False),
                        (''error'', PStr ''SystemController not available''),
                        (''action'', PNone)]), s)
         \<and> process_user_command user_command user_context s =
           (Inr (PDict [(''success'', PBool False),
                        (''error'', PStr ''SystemController not available''),
                        (''action'', PNone)]), s)
         \<and> execute_system_action a s =
           (Inr (PDict [(''success'', PBool False),
                        (''error'', PStr ''SystemController not available'')]), s)"
  using assms
  by (auto simp: process_user_command_def translate_user_command_def execute_system_action_def
      prog_defs)

theorem unavailable_controller_failure_witness:
  "translate_user_command ''show status'' PNone stopped_brain_with_controller =
     (Inr (PDict [(''success'', PBool False),
                  (''error'', PStr ''SystemController not available''),
                  (''action'', PNone)]), stopped_brain_with_controller)
   \<and> process_user_command ''show status'' PNone running_brain_without_controller =
     (Inr (PDict [(''success'', PBool False),
                  (''error'', PStr ''SystemController not available''),
                  (''action'', PNone)]), running_brain_without_controller)"
proof -
  have off: "\<not> is_running stopped_brain_with_controller
             \<or> system_controller stopped_brain_with_controller = None"
    by (simp add: stopped_brain_with_controller_def)
  have absent: "\<not> is_running running_brain_without_controller
                \<or> system_controller running_brain_without_controller = None"
    by (simp add: running_brain_without_controller_def)
  show ?thesis
    using unavailable_controller_failure [OF off] unavailable_controller_failure [OF absent]
    by simp
qed

section \<open>Chat delegation with fallback\<close>

text \<open>
  C9, as stated: whenever the delegation to the User-Interface Agent raises,
  \<^verbatim>\<open>chat_with_user_interface_agent\<close> would return the result of
  \<^verbatim>\<open>process_user_input(message, "chat")\<close> and never raise. Its handler is
  \<^verbatim>\<open>except Exception\<close>: when the agent's call is cancelled, the \<^verbatim>\<open>CancelledError\<close> is not
  caught, there is no fallback (no turn is counted, nothing is written to the
  Context Store) and the call raises, although \<^verbatim>\<open>process_user_input\<close> on the same
  brain would have completed the turn.
\<close>

theorem cancelled_delegation_is_raised:
  "is_running running_brain_with_cancelled_agent
   \<and> user_interface running_brain_with_cancelled_agent = Some cancelled_agent
   \<and> ui_process_chat_message cancelled_agent ''hi'' PNone = Inl (CancelledError [])
   \<and> chat_with_user_interface_agent example_env ''hi'' PNone running_brain_with_cancelled_agent
       = (Inl (CancelledError []), running_brain_with_cancelled_agent)
   \<and> raises (fst (chat_with_user_interface_agent example_env ''hi'' PNone
                     running_brain_with_cancelled_agent))
   \<and> turn_id (fst (process_user_input example_env ''hi'' ''chat''
                     running_brain_with_cancelled_agent)) = Some 1
   \<and> fst (chat_with_user_interface_agent example_env ''hi'' PNone
            running_brain_with_cancelled_agent)
       \<noteq> fst (process_user_input example_env ''hi'' ''chat''
                running_brain_with_cancelled_agent)"
  by (simp add: chat_with_user_interface_agent_def process_user_input_def build_context_def
      generate_response_def update_context_def now_def prog_defs raises_def turn_id_def
      running_brain_with_cancelled_agent_def cancelled_agent_def running_brain_def
      fresh_brain_def init_def healthy_client_def example_context_manager_def)

text \<open>
  C9, amended. While running, \<^verbatim>\<open>chat_with_user_interface_agent\<close> delegates the full
  turn to the User-Interface Agent if that collaborator is present: what the agent
  returns is returned, and the brain is left as it was. If the collaborator is
  absent, or its call raises an exception that derives from \<^verbatim>\<open>Exception\<close>, the result
  and the state are those of \<^verbatim>\<open>process_user_input(message, "chat")\<close>. An exception of
  the delegation that does not derive from \<^verbatim>\<open>Exception\<close> (\<^verbatim>\<open>asyncio.CancelledError\<close>,
  \<^verbatim>\<open>KeyboardInterrupt\<close>, \<^verbatim>\<open>SystemExit\<close>) is raised to the caller without a fallback.
  Whatever the collaborators do, the call raises no exception that derives from
  \<^verbatim>\<open>Exception\<close>: neither the agent's absence nor such a fault of it is surfaced.
\<close>

theorem chat_delegates_or_falls_back:
  assumes "is_running s"
  shows "chat_with_user_interface_agent E message ctx s =
           (case user_interface s of
              None \<Rightarrow> process_user_input E message ''chat'' s
            | Some ui \<Rightarrow>
                (case ui_process_chat_message ui message ctx of
                   Inr r \<Rightarrow> (Inr r, s)
                 | Inl e \<Rightarrow>
                     if is_exception e then process_user_input E message ''chat'' s
                     else (Inl e, s)))
         \<and> (\<forall>e. fst (chat_with_user_interface_agent E message ctx s) = Inl e
                \<longrightarrow> \<not> is_exception e)"
proof -
  have eq: "chat_with_user_interface_agent E message ctx s =
           (case user_interface s of
              None \<Rightarrow> process_user_input E message ''chat'' s
            | Some ui \<Rightarrow>
                (case ui_process_chat_message ui message ctx of
                   Inr r \<Rightarrow> (Inr r, s)
                 | Inl e \<Rightarrow>
                     if is_exception e then process_user_input E message ''chat'' s
                     else (Inl e, s)))"
    using assms
    by (simp add: chat_with_user_interface_agent_def prog_defs
        split: option.splits sum.splits)
  have "\<not> is_exception e" if "fst (chat_with_user_interface_agent E message ctx s) = Inl e"
    for e
  proof (cases "user_interface s")
    case None
    with that eq show ?thesis
      by (simp add: process_user_input_raises)
  next
    case (Some ui)
    show ?thesis
    proof (cases "ui_process_chat_message ui message ctx")
      case (Inr r)
      with that eq Some show ?thesis by simp
    next
      case (Inl e')
      show ?thesis
      proof (cases "is_exception e'")
        case True
        with that eq Some Inl show ?thesis
          by (simp add: process_user_input_raises)
      next
        case False
        with that eq Some Inl show ?thesis by simp
      qed
    qed
  qed
  with eq show ?thesis by blast
qed

theorem chat_delegates_or_falls_back_witness:
  "fst (chat_with_user_interface_agent example_env ''hi'' PNone running_brain) =
     Inr (PDict [(''success'', PBool True), (''message'', PStr ''hi'')])
   \<and> chat_with_user_interface_agent example_env ''hi'' PNone
       (running_brain\<lparr>user_interface := Some broken_agent\<rparr>) =
     process_user_input example_env ''hi'' ''chat''
       (running_brain\<lparr>user_interface := Some broken_agent\<rparr>)
   \<and> chat_with_user_interface_agent example_env ''hi'' PNone
       (running_brain\<lparr>user_interface := None\<rparr>) =
     process_user_input example_env ''hi'' ''chat'' (running_brain\<lparr>user_interface := None\<rparr>)
   \<and> chat_with_user_interface_agent example_env ''hi'' PNone
       (running_brain\<lparr>user_interface := Some cancelled_agent\<rparr>) =
     (Inl (CancelledError []), running_brain\<lparr>user_interface := Some cancelled_agent\<rparr>)
   \<and> (\<forall>e. fst (chat_with_user_interface_agent example_env ''hi'' PNone
              (running_brain\<lparr>user_interface := Some broken_agent\<rparr>)) \<noteq> Inl (Exception e))"
proof -
  have r1: "is_running running_brain"
    and r2: "is_running (running_brain\<lparr>user_interface := Some broken_agent\<rparr>)"
    and r3: "is_running (running_brain\<lparr>user_interface := None\<rparr>)"
    and r4: "is_running (running_brain\<lparr>user_interface := Some cancelled_agent\<rparr>)"
    by (simp_all add: running_brain_def)
  have u1: "user_interface running_brain = Some echo_agent"
    by (simp add: running_brain_def)
  have a: "fst (chat_with_user_interface_agent example_env ''hi'' PNone running_brain) =
             Inr (PDict [(''success'', PBool True), (''message'', PStr ''hi'')])"
    using chat_delegates_or_falls_back [OF r1, of example_env "''hi''" PNone]
    by (simp add: u1 echo_agent_def)
  have b: "chat_with_user_interface_agent example_env ''hi'' PNone
             (running_brain\<lparr>user_interface := Some broken_agent\<rparr>) =
           process_user_input example_env ''hi'' ''chat''
             (running_brain\<lparr>user_interface := Some broken_agent\<rparr>)"
    using chat_delegates_or_falls_back [OF r2, of example_env "''hi''" PNone]
    by (simp add: broken_agent_def)
  have c: "chat_with_user_interface_agent example_env ''hi'' PNone
             (running_brain\<lparr>user_interface := None\<rparr>) =
           process_user_input example_env ''hi'' ''chat''
             (running_brain\<lparr>user_interface := None\<rparr>)"
    using chat_delegates_or_falls_back [OF r3, of example_env "''hi''" PNone]
    by simp
  have d: "chat_with_user_interface_agent example_env ''hi'' PNone
             (running_brain\<lparr>user_interface := Some cancelled_agent\<rparr>) =
           (Inl (CancelledError []), running_brain\<lparr>user_interface := Some cancelled_agent\<rparr>)"
    using chat_delegates_or_falls_back [OF r4, of example_env "''hi''" PNone]
    by (simp add: cancelled_agent_def)
  have e: "\<forall>e. fst (chat_with_user_interface_agent example_env ''hi'' PNone
              (running_brain\<lparr>user_interface := Some broken_agent\<rparr>)) \<noteq> Inl (Exception e)"
    using chat_delegates_or_falls_back [OF r2, of example_env "''hi''" PNone]
    by auto
  from a b c d e show ?thesis by (intro conjI)
qed

section \<open>System prompt selection\<close>

text \<open>
  C6. The system prompt depends on nothing but \<^verbatim>\<open>context_type\<close>: the model of
  \<^verbatim>\<open>_get_system_prompt\<close> takes no state, as the method reads no attribute. Each of the
  four known types selects the base prompt followed by its own fixed paragraph,
  every other value selects the base prompt, and the five prompts are pairwise
  different.
\<close>

theorem system_prompt_by_context_type:
  "get_system_prompt ''chat'' =
     base_prompt @ ''\<newline>\<newline>You are in casual conversation mode. Be friendly and helpful.''
   \<and> get_system_prompt ''system_control'' =
     base_prompt @ ''\<newline>\<newline>You are in system control mode. Focus on understanding and executing system commands safely.''
   \<and> get_system_prompt ''agent_orchestration'' =
     base_prompt @ ''\<newline>\<newline>You are coordinating multiple agents. Focus on task delegation and result synthesis.''
   \<and> get_system_prompt ''embryo_training'' =
     base_prompt @ ''\<newline>\<newline>You are evaluating embryo training. Focus on pattern analysis and specialization recommendations.''
   \<and> (context_type \<notin> {''chat'', ''system_control'', ''agent_orchestration'', ''embryo_training''}
        \<longrightarrow> get_system_prompt context_type = base_prompt)
   \<and> distinct [get_system_prompt ''chat'', get_system_prompt ''system_control'',
               get_system_prompt ''agent_orchestration'', get_system_prompt ''embryo_training'',
               base_prompt]"
  by (simp add: get_system_prompt_def)

theorem system_prompt_by_context_type_witness:
  "get_system_prompt ''small_talk'' = base_prompt
   \<and> get_system_prompt '''' = base_prompt
   \<and> get_system_prompt ''chat'' \<noteq> base_prompt"
  using system_prompt_by_context_type [of "''small_talk''"]
    system_prompt_by_context_type [of "''''"]
  by simp

section \<open>Start and stop\<close>

lemma get_health_status_reports_client:
  assumes "ollama_client s = Some oc"
    and "oc_get_health_status oc = Inr status"
    and "py_get status ''is_healthy'' (PBool False) = Inr flag"
    and "fst (get_health_status E s) = Inr r"
  shows "py_get r ''ollama_healthy'' (PBool False) = Inr flag"
  using assms
  by (cases status)
     (auto simp: get_health_status_def prog_defs no_attribute_def
        split: option.splits sum.splits prod.splits)

lemma start_unhealthy:
  assumes "new_OllamaClient E (ai_config s) = Inr oc"
    and "oc_get_health_status oc = Inr status"
    and "py_get status ''is_healthy'' (PBool False) = Inr flag"
    and "\<not> truthy flag"
  shows "raises (fst (start E s))
         \<and> is_running (snd (start E s)) = is_running s
         \<and> startup_time (snd (start E s)) = startup_time s"
  using assms(1,4)
  by (auto simp: start_simps split: sum.splits if_splits
      dest!: get_health_status_reports_client [OF _ assms(2,3), rotated])

text \<open>
  C4. If the Generation Client that \<^verbatim>\<open>start\<close> constructs reports unhealthy (its health
  status has no true \<^verbatim>\<open>is_healthy\<close>), then \<^verbatim>\<open>start\<close> raises, and \<^verbatim>\<open>is_running\<close> and
  \<^verbatim>\<open>startup_time\<close> are what they were before the call: a brain that was not running
  is still not running, and no start time has been stamped.
\<close>

theorem start_fails_when_client_unhealthy:
  assumes "new_OllamaClient E (ai_config s) = Inr oc"
    and "oc_get_health_status oc = Inr status"
    and "py_get status ''is_healthy'' (PBool False) = Inr flag"
    and "\<not> truthy flag"
  shows "raises (fst (start E s))
         \<and> is_running (snd (start E s)) = is_running s
         \<and> startup_time (snd (start E s)) = startup_time s"
  using start_unhealthy [OF assms] by simp

theorem start_fails_when_client_unhealthy_witness:
  "raises (fst (start unhealthy_env fresh_brain))
   \<and> \<not> is_running (snd (start unhealthy_env fresh_brain))
   \<and> startup_time (snd (start unhealthy_env fresh_brain)) = None"
proof -
  have c: "new_OllamaClient unhealthy_env (ai_config fresh_brain) = Inr unhealthy_client"
    by (simp add: unhealthy_env_def example_env_def)
  have h: "oc_get_health_status unhealthy_client =
             Inr (PDict [(''is_healthy'', PBool False), (''model_name'', PStr ''llama'')])"
    by (simp add: unhealthy_client_def)
  have g: "py_get (PDict [(''is_healthy'', PBool False), (''model_name'', PStr ''llama'')])
             ''is_healthy'' (PBool False) = Inr (PBool False)"
    by simp
  have f: "\<not> truthy (PBool False)"
    by simp
  show ?thesis
    using start_fails_when_client_unhealthy [OF c h g f]
    by (simp add: fresh_brain_def init_def)
qed

lemma start_success:
  "fst (start E s) = Inr () \<Longrightarrow>
     is_running (snd (start E s)) \<and>
     startup_time (snd (start E s)) = Some (datetime_now E (clock_reads s)) \<and>
     clock_reads (snd (start E s)) = Suc (clock_reads s)"
  by (auto simp: start_simps split: sum.splits if_splits)

lemma start_exception_frame:
  "fst (start E s) = Inl e \<Longrightarrow> is_exception e \<Longrightarrow>
     is_running (snd (start E s)) = is_running s \<and>
     startup_time (snd (start E s)) = startup_time s"
  by (auto simp: start_simps split: sum.splits if_splits
      dest: initialize_specialized_agents_raises)

text \<open>The example brain that is running is the one \<^verbatim>\<open>start\<close> makes of a fresh brain.\<close>

lemma start_example: "start example_env fresh_brain = (Inr (), running_brain)"
  by (simp add: start_def get_health_status_def initialize_specialized_agents_def
      now_def prog_defs example_env_def running_brain_def fresh_brain_def init_def
      healthy_client_def example_context_manager_def)

text \<open>
  C7, as stated: after any completed \<^verbatim>\<open>stop\<close>, \<^verbatim>\<open>startup_time\<close> would be \<^verbatim>\<open>None\<close>. It is
  not: a fresh brain that is started and then stopped is no longer running and
  still holds the start time.
\<close>

theorem startup_time_survives_stop:
  "fst (start example_env fresh_brain) = Inr ()
   \<and> fst (stop (snd (start example_env fresh_brain))) = Inr ()
   \<and> \<not> is_running (snd (stop (snd (start example_env fresh_brain))))
   \<and> startup_time (snd (stop (snd (start example_env fresh_brain)))) = Some 0"
  by (simp add: start_def stop_def get_health_status_def initialize_specialized_agents_def
      now_def prog_defs example_env_def fresh_brain_def init_def healthy_client_def
      example_context_manager_def)

text \<open>
  C7, amended. A successful \<^verbatim>\<open>start\<close> reads the clock once and sets \<^verbatim>\<open>startup_time\<close> to
  that reading, with \<^verbatim>\<open>is_running\<close> true; a \<^verbatim>\<open>start\<close> that fails with an \<^verbatim>\<open>Exception\<close>
  leaves \<^verbatim>\<open>startup_time\<close> as it was. \<^verbatim>\<open>stop\<close> never changes \<^verbatim>\<open>startup_time\<close>, whether it
  completes or lets through an exception of closing the client that does not
  derive from \<^verbatim>\<open>Exception\<close> (those are the only ones it can raise); and no public
  operation other than \<^verbatim>\<open>start\<close> changes it. So after a successful \<^verbatim>\<open>start\<close>, any
  operations other than \<^verbatim>\<open>start\<close>, and a \<^verbatim>\<open>stop\<close>, \<^verbatim>\<open>startup_time\<close> still is the clock
  reading of that \<^verbatim>\<open>start\<close>.
\<close>

theorem startup_time_set_by_start_kept_by_stop:
  "(fst (start E s) = Inr () \<longrightarrow>
      is_running (snd (start E s))
      \<and> startup_time (snd (start E s)) = Some (datetime_now E (clock_reads s))
      \<and> clock_reads (snd (start E s)) = Suc (clock_reads s))
   \<and> (fst (start E s) = Inl e \<and> is_exception e \<longrightarrow>
        startup_time (snd (start E s)) = startup_time s)
   \<and> startup_time (snd (stop s')) = startup_time s'
   \<and> (fst (stop s') = Inl e' \<longrightarrow> \<not> is_exception e')
   \<and> (op \<noteq> Start \<longrightarrow> startup_time (snd (run_op E op s')) = startup_time s')
   \<and> (Start \<notin> set ops \<longrightarrow> startup_time (run_ops E ops s') = startup_time s')
   \<and> (fst (start E s) = Inr () \<and> Start \<notin> set ops \<longrightarrow>
        startup_time (snd (stop (run_ops E ops (snd (start E s))))) =
          Some (datetime_now E (clock_reads s)))"
proof -
  have history: "startup_time (snd (stop (run_ops E ops (snd (start E s))))) =
                   Some (datetime_now E (clock_reads s))"
    if "fst (start E s) = Inr ()" and "Start \<notin> set ops"
  proof -
    have "startup_time (snd (stop (run_ops E ops (snd (start E s))))) =
            startup_time (run_ops E ops (snd (start E s)))"
      by (simp add: stop_frame)
    also have "\<dots> = startup_time (snd (start E s))"
      using that(2) by (rule run_ops_startup_time)
    also have "\<dots> = Some (datetime_now E (clock_reads s))"
      using start_success [OF that(1)] by simp
    finally show ?thesis .
  qed
  show ?thesis
    using start_success [of E s] start_exception_frame [of E s e] stop_frame [of s']
      stop_raises [of s' e'] run_op_startup_time [of op E s']
      run_ops_startup_time [of ops E s'] history
    by blast
qed

theorem startup_time_set_by_start_kept_by_stop_witness:
  "startup_time (snd (start example_env fresh_brain)) = Some 0
   \<and> is_running (snd (start example_env fresh_brain))
   \<and> startup_time (snd (stop (snd (start example_env fresh_brain)))) = Some 0
   \<and> startup_time (snd (run_op example_env (ProcessUserInput ''hi'' ''chat'') running_brain)) =
       Some 0
   \<and> startup_time
       (snd (stop (run_ops example_env
                     [ProcessUserInput ''hi'' ''chat'', Stop, GetStatusSummary]
                     (snd (start example_env fresh_brain))))) = Some 0"
proof -
  have ok: "fst (start example_env fresh_brain) = Inr ()"
    by (simp add: start_example)
  have t0: "datetime_now example_env (clock_reads fresh_brain) = 0"
    by (simp add: example_env_def fresh_brain_def init_def)
  have t1: "startup_time running_brain = Some 0"
    by (simp add: running_brain_def)
  have no_start: "Start \<notin> set [ProcessUserInput ''hi'' ''chat'', Stop, GetStatusSummary]"
    and other: "ProcessUserInput ''hi'' ''chat'' \<noteq> Start"
    by simp_all
  note inst = startup_time_set_by_start_kept_by_stop
  have a: "startup_time (snd (start example_env fresh_brain)) = Some 0
           \<and> is_running (snd (start example_env fresh_brain))"
    using inst [of example_env fresh_brain] ok t0 by simp
  have b: "startup_time (snd (stop (snd (start example_env fresh_brain)))) = Some 0"
    using inst [of _ _ _ "snd (start example_env fresh_brain)"] a by simp
  have c: "startup_time (snd (run_op example_env (ProcessUserInput ''hi'' ''chat'')
             running_brain)) = Some 0"
    using inst [of example_env _ _ running_brain _ "ProcessUserInput ''hi'' ''chat''"] other t1
    by simp
  have d: "startup_time
       (snd (stop (run_ops example_env
                     [ProcessUserInput ''hi'' ''chat'', Stop, GetStatusSummary]
                     (snd (start example_env fresh_brain))))) = Some 0"
    using inst [of example_env fresh_brain _ _ _ _
        "[ProcessUserInput ''hi'' ''chat'', Stop, GetStatusSummary]"] ok t0 no_start
    by simp
  from a b c d show ?thesis by (intro conjI) simp_all
qed

section \<open>Operations invoked while not running\<close>

text \<open>
  C2, as stated: every public operation other than \<^verbatim>\<open>start\<close>, \<^verbatim>\<open>stop\<close> and the health
  and status reads would, while not running, return a result with \<^verbatim>\<open>success = False\<close>
  and never raise. \<^verbatim>\<open>validate_patterns\<close> makes no running check and returns its
  placeholder result, which has no \<^verbatim>\<open>success\<close> key; \<^verbatim>\<open>update_system_state\<close> makes none
  either and lets an exception of the Context Store through.
\<close>

theorem unguarded_operations_when_not_running:
  "\<not> lifecycle_or_status (ValidatePatterns [])
   \<and> \<not> is_running fresh_brain
   \<and> \<not> is_failure (fst (run_op example_env (ValidatePatterns []) fresh_brain))
   \<and> fst (run_op example_env (ValidatePatterns []) fresh_brain) =
       Inr (PDict [(''validated_patterns'', PList []),
                   (''validation_score'', PFloat (85 / 100)),
                   (''recommendations'', PList [PStr ''Pattern validation placeholder''])])
   \<and> \<not> lifecycle_or_status (UpdateSystemState [])
   \<and> \<not> is_running stopped_brain_with_broken_store
   \<and> fst (run_op example_env (UpdateSystemState []) stopped_brain_with_broken_store) =
       Inl (Exception ''store offline'')"
  by (simp add: is_failure_def validate_patterns_def update_system_state_def update_context_def
      now_def prog_defs fresh_brain_def init_def stopped_brain_with_broken_store_def
      running_brain_def example_context_manager_def)

text \<open>
  C2, amended. Every public operation that begins with a test of \<^verbatim>\<open>is_running\<close>
  (\<^verbatim>\<open>process_user_input\<close>, \<^verbatim>\<open>chat_with_user_interface_agent\<close>,
  \<^verbatim>\<open>coordinate_system_action\<close>, \<^verbatim>\<open>orchestrate_complex_task\<close>, \<^verbatim>\<open>generate_training_labels\<close>,
  \<^verbatim>\<open>validate_embryo_training\<close>, \<^verbatim>\<open>assess_embryo_birth_readiness\<close>,
  \<^verbatim>\<open>translate_user_command\<close>, \<^verbatim>\<open>execute_system_action\<close>, \<^verbatim>\<open>process_user_command\<close>), when
  invoked while not running, returns a dictionary with \<^verbatim>\<open>success = False\<close>, raises
  nothing and leaves the state unchanged, whatever its arguments; the streaming
  generator yields the one apology fragment instead of a dictionary.
\<close>

theorem guarded_operations_fail_when_not_running:
  assumes "\<not> is_running s"
  shows "(checks_running op \<longrightarrow>
            is_failure (fst (run_op E op s)) \<and> snd (run_op E op s) = s)
         \<and> stream_user_response user_message context_type s = (Inr [not_available_message], s)"
proof -
  have "is_failure (fst (run_op E op s)) \<and> snd (run_op E op s) = s" if "checks_running op"
    using that assms
    by (cases op)
       (simp_all add: is_failure_def process_user_input_def
          chat_with_user_interface_agent_def coordinate_system_action_def
          orchestrate_complex_task_def generate_training_labels_def
          validate_embryo_training_def assess_embryo_birth_readiness_def
          translate_user_command_def execute_system_action_def process_user_command_def
          not_running_result_def brain_not_running_def prog_defs)
  moreover have "stream_user_response user_message context_type s =
                   (Inr [not_available_message], s)"
    using assms by (simp add: stream_user_response_def prog_defs)
  ultimately show ?thesis by simp
qed

theorem guarded_operations_fail_when_not_running_witness:
  "fst (run_op example_env (ProcessUserCommand ''show status'' PNone)
          stopped_brain_with_controller) =
     Inr (PDict [(''success'', PBool False),
                 (''error'', PStr ''SystemController not available''),
                 (''action'', PNone)])
   \<and> is_failure (fst (run_op example_env (ProcessUserInput ''hi'' ''chat'') fresh_brain))
   \<and> snd (run_op example_env (GenerateTrainingLabels []) fresh_brain) = fresh_brain
   \<and> stream_user_response ''hi'' ''chat'' fresh_brain =
       (Inr [''I apologize, but I'm not currently available. Please try again later.''],
        fresh_brain)"
proof -
  have off: "\<not> is_running fresh_brain"
    by (simp add: fresh_brain_def init_def)
  have off': "\<not> is_running stopped_brain_with_controller"
    by (simp add: stopped_brain_with_controller_def)
  have a: "is_failure (fst (run_op example_env (ProcessUserInput ''hi'' ''chat'') fresh_brain))"
    using guarded_operations_fail_when_not_running
      [OF off, of "ProcessUserInput ''hi'' ''chat''" example_env]
    by simp
  have b: "snd (run_op example_env (GenerateTrainingLabels []) fresh_brain) = fresh_brain"
    using guarded_operations_fail_when_not_running
      [OF off, of "GenerateTrainingLabels []" example_env]
    by simp
  have c: "stream_user_response ''hi'' ''chat'' fresh_brain =
             (Inr [''I apologize, but I'm not currently available. Please try again later.''],
              fresh_brain)"
    using guarded_operations_fail_when_not_running [OF off, of _ _ "''hi''" "''chat''"]
    by (simp add: not_available_message_def)
  have d: "fst (run_op example_env (ProcessUserCommand ''show status'' PNone)
                  stopped_brain_with_controller) =
             Inr (PDict [(''success'', PBool False),
                         (''error'', PStr ''SystemController not available''),
                         (''action'', PNone)])"
    using off'
    by (simp add: process_user_command_def translate_user_command_def prog_defs)
  from d a b c show ?thesis by (intro conjI)
qed

section \<open>The interaction counter\<close>

text \<open>
  C3, as stated: the counter would grow by one for each completed turn of either
  conversational path and not at all for a turn that does not complete, and each
  completed turn would observe a value of its own. A non-streaming turn whose
  generation fails returns a failure and has still incremented the counter; a
  streaming turn that completes (all fragments yielded, the record written)
  leaves the counter where it was; and two calls of \<^verbatim>\<open>process_user_input\<close> that have
  both passed their first \<^verbatim>\<open>await\<close> before either goes on both complete with
  \<^verbatim>\<open>interaction_id\<close> 2, because each reads the counter again after its \<^verbatim>\<open>await\<close>s.
\<close>

theorem counter_and_turn_ids_not_as_claimed:
  "is_failure (fst (process_user_input example_env ''hi'' ''chat''
                      running_brain_with_failing_client))
   \<and> interaction_count running_brain_with_failing_client = 0
   \<and> interaction_count (snd (process_user_input example_env ''hi'' ''chat''
                               running_brain_with_failing_client)) = 1
   \<and> fst (stream_user_response ''hi'' ''chat'' running_brain) = Inr [''Hello'', '' there'']
   \<and> length (context_writes (snd (stream_user_response ''hi'' ''chat'' running_brain))) =
       length (context_writes running_brain) + 1
   \<and> interaction_count running_brain = 0
   \<and> interaction_count (snd (stream_user_response ''hi'' ''chat'' running_brain)) = 0
   \<and> map returned_id
        (fst (run_schedule example_env [0, 1, 0, 0, 0, 1, 1, 1]
                [Called ''hi'' ''chat'', Called ''hello'' ''chat''] running_brain)) =
       [Some 2, Some 2]
   \<and> interaction_count
        (snd (run_schedule example_env [0, 1, 0, 0, 0, 1, 1, 1]
                [Called ''hi'' ''chat'', Called ''hello'' ''chat''] running_brain)) = 2"
  by (simp add: process_user_input_def stream_user_response_def build_context_def
      generate_response_def stream_response_def update_context_def now_def prog_defs
      is_failure_def context_writes_def turn_id_def turn_failed_def
      running_brain_with_failing_client_def
      running_brain_def fresh_brain_def init_def failing_client_def healthy_client_def
      example_context_manager_def)

text \<open>
  C3, amended. Every call of \<^verbatim>\<open>process_user_input\<close> made while running increments
  \<^verbatim>\<open>interaction_count\<close> by exactly 1, whether or not the turn completes: the increment
  is the first thing the call does, before its first \<^verbatim>\<open>await\<close>, and none of its later
  segments changes the counter. A call made while not running changes nothing.
  The counter is never decremented: not by any public operation, not by any
  sequence of them, and not by any interleaving of \<^verbatim>\<open>process_user_input\<close> calls at
  their \<^verbatim>\<open>await\<close>s.
\<close>

theorem interaction_count_increments:
  "(is_running s \<longrightarrow>
      interaction_count (snd (process_user_input E m ct s)) = interaction_count s + 1)
   \<and> (\<not> is_running s \<longrightarrow> snd (process_user_input E m ct s) = s)
   \<and> interaction_count (snd (step E t s)) =
       (if is_running s \<and> just_called t then interaction_count s + 1
        else interaction_count s)
   \<and> interaction_count s \<le> interaction_count (snd (run_op E op s))
   \<and> interaction_count s \<le> interaction_count (run_ops E ops s)
   \<and> interaction_count s \<le> interaction_count (snd (run_schedule E sched ts s))"
  using process_user_input_count [of E m ct s] process_user_input_not_running [of s E m ct]
    step_count [of E t s] run_op_count [of s E op] run_ops_count [of s E ops]
    run_schedule_count [of s E sched ts]
  by simp

theorem interaction_count_increments_witness:
  "interaction_count (snd (process_user_input example_env ''hi'' ''chat'' running_brain)) = 1
   \<and> snd (process_user_input example_env ''hi'' ''chat'' fresh_brain) = fresh_brain
   \<and> interaction_count (snd (step example_env (Called ''hi'' ''chat'') running_brain)) = 1
   \<and> interaction_count
       (snd (step example_env (AwaitingContext ''hi'' ''chat'' 0 (Inr PNone)) running_brain)) = 0
   \<and> interaction_count running_brain
       \<le> interaction_count
            (snd (run_schedule example_env [0, 1, 0, 0, 0, 1, 1, 1]
                    [Called ''hi'' ''chat'', Called ''hello'' ''chat''] running_brain))"
proof -
  have r: "is_running running_brain" and c: "interaction_count running_brain = 0"
    by (simp_all add: running_brain_def fresh_brain_def init_def)
  have off: "\<not> is_running fresh_brain"
    by (simp add: fresh_brain_def init_def)
  have a: "interaction_count (snd (process_user_input example_env ''hi'' ''chat'' running_brain)) = 1"
    using interaction_count_increments [of running_brain example_env "''hi''" "''chat''"] r c
    by simp
  have b: "snd (process_user_input example_env ''hi'' ''chat'' fresh_brain) = fresh_brain"
    using interaction_count_increments [of fresh_brain example_env "''hi''" "''chat''"] off
    by simp
  have d: "interaction_count (snd (step example_env (Called ''hi'' ''chat'') running_brain)) = 1"
    using interaction_count_increments
      [of running_brain example_env _ _ "Called ''hi'' ''chat''"] r c
    by simp
  have e: "interaction_count
       (snd (step example_env (AwaitingContext ''hi'' ''chat'' 0 (Inr PNone)) running_brain)) = 0"
    using interaction_count_increments
      [of running_brain example_env _ _ "AwaitingContext ''hi'' ''chat'' 0 (Inr PNone)"] c
    by simp
  have f: "interaction_count running_brain
       \<le> interaction_count
            (snd (run_schedule example_env [0, 1, 0, 0, 0, 1, 1, 1]
                    [Called ''hi'' ''chat'', Called ''hello'' ''chat''] running_brain))"
    using interaction_count_increments
      [of running_brain example_env _ _ _ _ _ "[0, 1, 0, 0, 0, 1, 1, 1]"
        "[Called ''hi'' ''chat'', Called ''hello'' ''chat'']"]
    by simp
  from a b d e f show ?thesis by (intro conjI)
qed

section \<open>Streaming and non-streaming turns\<close>

text \<open>
  C5, as stated: with identical input and a deterministic client whose fragments
  concatenate to its non-streaming response, both paths would perform identical
  Context Store writes, metadata included. On the example brain the fragments
  \<^verbatim>\<open>"Hello"\<close>, \<^verbatim>\<open>" there"\<close> concatenate to the response \<^verbatim>\<open>"Hello there"\<close> of the
  non-streaming path, yet the records written differ: the non-streaming one has
  \<^verbatim>\<open>interaction_id\<close> 1 and a \<^verbatim>\<open>response_time\<close>, the streaming one has \<^verbatim>\<open>interaction_id\<close> 0
  and no \<^verbatim>\<open>response_time\<close>.
\<close>

theorem streaming_writes_differ:
  "oc_stream_response healthy_client ''hi'' (PDict [(''conversation_history'', PList [])])
     (get_system_prompt ''chat'') = ([''Hello'', '' there''], None)
   \<and> oc_generate_response healthy_client ''hi'' (PDict [(''conversation_history'', PList [])])
       (get_system_prompt ''chat'') = Inr (concat [''Hello'', '' there''])
   \<and> fst (stream_user_response ''hi'' ''chat'' running_brain) = Inr [''Hello'', '' there'']
   \<and> map_of (case fst (process_user_input example_env ''hi'' ''chat'' running_brain) of
               Inr (PDict d) \<Rightarrow> d | _ \<Rightarrow> []) ''message'' = Some (PStr ''Hello there'')
   \<and> context_writes (snd (process_user_input example_env ''hi'' ''chat'' running_brain)) =
       [PDict [(''user_message'', PStr ''hi''),
               (''assistant_response'', PStr ''Hello there''),
               (''context_type'', PStr ''chat''),
               (''metadata'', PDict [(''interaction_id'', PInt 1),
                                     (''response_time'', PFloat 1)])]]
   \<and> context_writes (snd (stream_user_response ''hi'' ''chat'' running_brain)) =
       [PDict [(''user_message'', PStr ''hi''),
               (''assistant_response'', PStr ''Hello there''),
               (''context_type'', PStr ''chat''),
               (''metadata'', PDict [(''interaction_id'', PInt 0)])]]
   \<and> context_writes (snd (process_user_input example_env ''hi'' ''chat'' running_brain)) \<noteq>
       context_writes (snd (stream_user_response ''hi'' ''chat'' running_brain))"
  by (simp add: process_user_input_def stream_user_response_def build_context_def
      generate_response_def stream_response_def update_context_def now_def prog_defs
      context_writes_def total_seconds_def running_brain_def fresh_brain_def init_def
      healthy_client_def example_context_manager_def example_env_def)

text \<open>
  C5, amended. Take identical input and state, a running brain whose Context Store
  builds the context and accepts writes, and a deterministic Generation Client
  whose streamed fragments concatenate to its non-streaming response. Then the
  streaming path yields exactly those fragments, the non-streaming path returns
  their concatenation as its message, and each path performs exactly one Context
  Store write, with the same \<^verbatim>\<open>user_message\<close>, \<^verbatim>\<open>assistant_response\<close> (the concatenated
  text) and \<^verbatim>\<open>context_type\<close>. The metadata are not the same: the non-streaming record
  carries an \<^verbatim>\<open>interaction_id\<close> and a \<^verbatim>\<open>response_time\<close>, the streaming record only an
  \<^verbatim>\<open>interaction_id\<close>.
\<close>

theorem streaming_agrees_up_to_metadata:
  assumes "is_running s"
    and "context_manager s = Some cm"
    and "ollama_client s = Some oc"
    and "cm_build_context cm (cm_updates cm) context_type user_message = Inr ctx"
    and "\<And>r. cm_update_context cm r = Inr ()"
    and "oc_stream_response oc user_message (PDict [(''conversation_history'', ctx)])
           (get_system_prompt context_type) = (chunks, None)"
    and "oc_generate_response oc user_message (PDict [(''conversation_history'', ctx)])
           (get_system_prompt context_type) = Inr (concat chunks)"
  shows "\<exists>i rt t j.
           fst (stream_user_response user_message context_type s) = Inr chunks
         \<and> fst (process_user_input E user_message context_type s) =
             Inr (PDict [(''success'', PBool True),
                         (''message'', PStr (concat chunks)),
                         (''context_type'', PStr context_type),
                         (''interaction_id'', PInt i),
                         (''response_time'', PFloat t)])
         \<and> context_writes (snd (process_user_input E user_message context_type s)) =
             context_writes s @
               [PDict [(''user_message'', PStr user_message),
                       (''assistant_response'', PStr (concat chunks)),
                       (''context_type'', PStr context_type),
                       (''metadata'', PDict [(''interaction_id'', PInt i),
                                             (''response_time'', PFloat rt)])]]
         \<and> context_writes (snd (stream_user_response user_message context_type s)) =
             context_writes s @
               [PDict [(''user_message'', PStr user_message),
                       (''assistant_response'', PStr (concat chunks)),
                       (''context_type'', PStr context_type),
                       (''metadata'', PDict [(''interaction_id'', PInt j)])]]"
  using assms
  by (simp add: process_user_input_def stream_user_response_def build_context_def
      generate_response_def stream_response_def update_context_def now_def prog_defs
      context_writes_def foldl_append_concat)

theorem streaming_agrees_up_to_metadata_witness:
  "\<exists>i rt t j.
     fst (stream_user_response ''hi'' ''chat'' running_brain) = Inr [''Hello'', '' there'']
   \<and> fst (process_user_input example_env ''hi'' ''chat'' running_brain) =
       Inr (PDict [(''success'', PBool True),
                   (''message'', PStr ''Hello there''),
                   (''context_type'', PStr ''chat''),
                   (''interaction_id'', PInt i),
                   (''response_time'', PFloat t)])
   \<and> context_writes (snd (process_user_input example_env ''hi'' ''chat'' running_brain)) =
       [PDict [(''user_message'', PStr ''hi''),
               (''assistant_response'', PStr ''Hello there''),
               (''context_type'', PStr ''chat''),
               (''metadata'', PDict [(''interaction_id'', PInt i),
                                     (''response_time'', PFloat rt)])]]
   \<and> context_writes (snd (stream_user_response ''hi'' ''chat'' running_brain)) =
       [PDict [(''user_message'', PStr ''hi''),
               (''assistant_response'', PStr ''Hello there''),
               (''context_type'', PStr ''chat''),
               (''metadata'', PDict [(''interaction_id'', PInt j)])]]"
proof -
  have r: "is_running running_brain"
    and cm: "context_manager running_brain = Some example_context_manager"
    and oc: "ollama_client running_brain = Some healthy_client"
    and w: "context_writes running_brain = []"
    by (simp_all add: running_brain_def context_writes_def example_context_manager_def)
  have b: "cm_build_context example_context_manager (cm_updates example_context_manager)
             ''chat'' ''hi'' = Inr (PList [])"
    and u: "\<And>r. cm_update_context example_context_manager r = Inr ()"
    by (simp_all add: example_context_manager_def)
  have st: "oc_stream_response healthy_client ''hi'' (PDict [(''conversation_history'', PList [])])
              (get_system_prompt ''chat'') = ([''Hello'', '' there''], None)"
    and g: "oc_generate_response healthy_client ''hi''
              (PDict [(''conversation_history'', PList [])])
              (get_system_prompt ''chat'') = Inr (concat [''Hello'', '' there''])"
    by (simp_all add: healthy_client_def)
  show ?thesis
    using streaming_agrees_up_to_metadata [OF r cm oc b u st g, of example_env]
    by (simp add: w)
qed

end
